theory Spec2Isabelle
  imports Main "HOL-Library.Sublist"
begin

section \<open>Values, exceptions and the calls a run issues\<close>

text \<open>
  The program is \<^verbatim>\<open>src/threads.py\<close>, the class \<^verbatim>\<open>DropboxToThreadsUploader\<close>.
  Python strings are modelled as \<^typ>\<open>string\<close>; a character outside ASCII is the
  sequence of its UTF-8 bytes. Values whose Python type is not fixed by the code (what
  \<^verbatim>\<open>json.load\<close> and \<^verbatim>\<open>r.json()\<close> return, and what is put into a form
  dictionary) are \<open>pyval\<close>; \<open>PNone\<close> is Python's \<^verbatim>\<open>None\<close> (and JSON's null),
  a dictionary is the list of its items (its keys are distinct). JSON numbers are kept as
  integers only.
\<close>

datatype pyval =
    PNone
  | PBool bool
  | PInt int
  | PStr string
  | PList "pyval list"
  | PDict "(string \<times> pyval) list"

text \<open>
  Only exceptions below \<^verbatim>\<open>Exception\<close> are modelled (what \<^verbatim>\<open>except Exception\<close>
  catches); each carries the text \<^verbatim>\<open>str(e)\<close>. \<open>WorldError\<close> is any exception raised
  inside a library call (a network error, a Dropbox or Telegram API error, an I/O or JSON
  parse error).
\<close>

datatype exn =
    HTTPError string
  | AttributeError string
  | IndexError string
  | WorldError string

fun str_exn :: "exn \<Rightarrow> string" where
  "str_exn (HTTPError s) = s"
| "str_exn (AttributeError s) = s"
| "str_exn (IndexError s) = s"
| "str_exn (WorldError s) = s"

datatype level = INFO | WARNING | ERROR

text \<open>An entry of a folder listing: the two attributes the code reads.\<close>

record entry =
  name :: string
  path_lower :: string

text \<open>A \<^verbatim>\<open>requests.Response\<close>: the attributes and methods the code uses.\<close>

record response =
  status_code :: int
  text_body :: string
  json_body :: "exn + pyval"
  reason :: string
  url :: string

text \<open>
  Every call that leaves the process, and every call of the logger, is an event. A
  function of the program maps the history (the events so far) to its outcome and the
  events it adds.
\<close>

datatype event =
    TelegramSend "string option" string
  | Log level string
  | RequestsPost string "(string \<times> pyval) list"
  | DropboxNew pyval
  | FilesListFolder string
  | FilesGetTemporaryLink string
  | FilesDeleteV2 string

text \<open>
  The world outside the process. Each field answers one library call; the answer may
  depend on the history and on the arguments. \<open>None\<close> in an \<open>exn option\<close> is a normal
  return.
  \<^item> \<open>bot_send_message h chat_id text\<close>: \<^verbatim>\<open>telegram_bot.send_message\<close>;
  \<^item> \<open>requests_post h url data\<close>: \<^verbatim>\<open>requests.post(url, data=data)\<close>;
  \<^item> \<open>dropbox_new h token\<close>: the constructor \<^verbatim>\<open>dropbox.Dropbox(oauth2_access_token=token)\<close>;
  \<^item> \<open>files_list_folder h path\<close>: the \<^verbatim>\<open>entries\<close> of \<^verbatim>\<open>dbx.files_list_folder(path)\<close>;
  \<^item> \<open>files_get_temporary_link h path\<close>: the \<^verbatim>\<open>link\<close> of the result, a string or nothing;
  \<^item> \<open>files_delete_v2 h path\<close>;
  \<^item> \<open>json_load h path\<close>: opening the file at \<open>path\<close> and \<^verbatim>\<open>json.load\<close> of it;
  \<^item> \<open>weekday h\<close>: \<^verbatim>\<open>datetime.now(self.ist).strftime("%A")\<close>;
  \<^item> \<open>timestamp h\<close>: \<^verbatim>\<open>datetime.now(self.ist).strftime('%Y-%m-%d %H:%M:%S')\<close>;
  \<^item> \<open>elapsed h\<close>: the text of \<^verbatim>\<open>f"{duration:.1f}"\<close> (the clock and its floating-point
    formatting are not modelled);
  \<^item> \<open>randbelow h n\<close>: the raw draw behind \<^verbatim>\<open>random.choice\<close> on a sequence of length \<open>n\<close>.
\<close>

record world =
  bot_send_message :: "event list \<Rightarrow> string option \<Rightarrow> string \<Rightarrow> exn option"
  requests_post :: "event list \<Rightarrow> string \<Rightarrow> (string \<times> pyval) list \<Rightarrow> exn + response"
  dropbox_new :: "event list \<Rightarrow> pyval \<Rightarrow> exn option"
  files_list_folder :: "event list \<Rightarrow> string \<Rightarrow> exn + entry list"
  files_get_temporary_link :: "event list \<Rightarrow> string \<Rightarrow> exn + string option"
  files_delete_v2 :: "event list \<Rightarrow> string \<Rightarrow> exn option"
  json_load :: "event list \<Rightarrow> string \<Rightarrow> exn + pyval"
  weekday :: "event list \<Rightarrow> string"
  timestamp :: "event list \<Rightarrow> string"
  elapsed :: "event list \<Rightarrow> string"
  randbelow :: "event list \<Rightarrow> nat \<Rightarrow> nat"

text \<open>
  The attributes of \<^verbatim>\<open>self\<close> after \<^verbatim>\<open>__init__\<close>. \<^verbatim>\<open>self.script_name\<close>,
  \<^verbatim>\<open>self.account_key\<close> and \<^verbatim>\<open>self.telegram_bot\<close> are computed from the others
  (lines 18, 20 and 37 to 40) and are the functions below.
\<close>

record uploader =
  account_name :: string
  schedule_file :: string
  threads_access_token :: "string option"
  threads_user_id :: "string option"
  dropbox_app_key :: "string option"
  dropbox_app_secret :: "string option"
  dropbox_refresh_token :: "string option"
  dropbox_folder :: string
  telegram_bot_token :: "string option"
  telegram_chat_id :: "string option"

definition script_name :: "uploader \<Rightarrow> string" where
  "script_name u = account_name u @ ''_threads_post.py''"

definition account_key :: "uploader \<Rightarrow> string" where
  "account_key u = account_name u"

definition telegram_bot :: "uploader \<Rightarrow> bool" where
  "telegram_bot u = (telegram_bot_token u \<noteq> None)"

definition DROPBOX_TOKEN_URL :: string where
  "DROPBOX_TOKEN_URL = ''https://api.dropbox.com/oauth2/token''"

definition THREADS_API_BASE :: string where
  "THREADS_API_BASE = ''https://graph.threads.net/v1.0''"

section \<open>Sequencing, exceptions and handlers\<close>

type_synonym 'a prog = "event list \<Rightarrow> (exn + 'a) \<times> event list"

definition ret :: "'a \<Rightarrow> 'a prog" where
  "ret x = (\<lambda>h. (Inr x, []))"

definition raise :: "exn \<Rightarrow> 'a prog" where
  "raise e = (\<lambda>h. (Inl e, []))"

definition emit :: "event \<Rightarrow> unit prog" where
  "emit ev = (\<lambda>h. (Inr (), [ev]))"

text \<open>Reading the world (a clock, a file, the random source) adds no event.\<close>

definition ask :: "(event list \<Rightarrow> exn + 'a) \<Rightarrow> 'a prog" where
  "ask answer = (\<lambda>h. (answer h, []))"

text \<open>A library call: the event is recorded, then the world answers from the history.\<close>

definition call :: "event \<Rightarrow> (event list \<Rightarrow> exn + 'a) \<Rightarrow> 'a prog" where
  "call ev answer = (\<lambda>h. (answer h, [ev]))"

definition call_unit :: "event \<Rightarrow> (event list \<Rightarrow> exn option) \<Rightarrow> unit prog" where
  "call_unit ev answer =
     (\<lambda>h. (case answer h of None \<Rightarrow> Inr () | Some e \<Rightarrow> Inl e, [ev]))"

definition bind :: "'a prog \<Rightarrow> ('a \<Rightarrow> 'b prog) \<Rightarrow> 'b prog" where
  "bind m f =
     (\<lambda>h. case m h of
        (Inl e, es) \<Rightarrow> (Inl e, es)
      | (Inr x, es) \<Rightarrow> (case f x (h @ es) of (r, es') \<Rightarrow> (r, es @ es')))"

text \<open>\<^verbatim>\<open>try: m  except Exception as e: handler(e)\<close>\<close>

definition try_except :: "'a prog \<Rightarrow> (exn \<Rightarrow> 'a prog) \<Rightarrow> 'a prog" where
  "try_except m handler =
     (\<lambda>h. case m h of
        (Inl e, es) \<Rightarrow> (case handler e (h @ es) of (r, es') \<Rightarrow> (r, es @ es'))
      | (Inr x, es) \<Rightarrow> (Inr x, es))"

text \<open>
  \<^verbatim>\<open>try: m  finally: fin\<close>: \<open>fin\<close> runs whatever \<open>m\<close> did; an exception of \<open>fin\<close>
  replaces the outcome of \<open>m\<close>.
\<close>

definition try_finally :: "'a prog \<Rightarrow> unit prog \<Rightarrow> 'a prog" where
  "try_finally m fin =
     (\<lambda>h. case m h of
        (r, es) \<Rightarrow> (case fin (h @ es) of
                      (Inl e, es') \<Rightarrow> (Inl e, es @ es')
                    | (Inr u, es') \<Rightarrow> (r, es @ es')))"

section \<open>Strings\<close>

text \<open>
  \<^verbatim>\<open>str.lower\<close> on the ASCII letters; every other character is left as it is. (Python
  also lowers letters outside ASCII; none of them becomes a character of the extensions
  tested below.)
\<close>

definition lower_char :: "char \<Rightarrow> char" where
  "lower_char c =
     (let n = (of_char c :: nat) in if 65 \<le> n \<and> n \<le> 90 then char_of (n + 32) else c)"

definition lower :: "string \<Rightarrow> string" where
  "lower s = map lower_char s"

text \<open>\<^verbatim>\<open>s.endswith(t)\<close> for a tuple \<open>t\<close> of suffixes.\<close>

definition endswith1 :: "string \<Rightarrow> string \<Rightarrow> bool" where
  "endswith1 s x = (length x \<le> length s \<and> drop (length s - length x) s = x)"

definition endswith :: "string \<Rightarrow> string list \<Rightarrow> bool" where
  "endswith s t = list_ex (endswith1 s) t"

definition digit :: "nat \<Rightarrow> char" where
  "digit d = char_of (48 + d)"

text \<open>\<^verbatim>\<open>str(n)\<close> for a natural number.\<close>

function str_nat :: "nat \<Rightarrow> string" where
  "str_nat n = (if n < 10 then [digit n] else str_nat (n div 10) @ [digit (n mod 10)])"
  by pat_completeness auto
termination
  by (relation "measure id") auto

declare str_nat.simps [simp del]

definition str_opt :: "string option \<Rightarrow> string" where
  "str_opt x = (case x of None \<Rightarrow> ''None'' | Some s \<Rightarrow> s)"

definition val_opt :: "string option \<Rightarrow> pyval" where
  "val_opt x = (case x of None \<Rightarrow> PNone | Some s \<Rightarrow> PStr s)"

definition nl :: string where "nl = [CHR 0x0A]"

definition sparkles :: string where "sparkles = [CHR 0xE2, CHR 0x9C, CHR 0xA8]"
definition rocket :: string where "rocket = [CHR 0xF0, CHR 0x9F, CHR 0x9A, CHR 0x80]"
definition triangle_ruler :: string where "triangle_ruler = [CHR 0xF0, CHR 0x9F, CHR 0x93, CHR 0x90]"
definition package :: string where "package = [CHR 0xF0, CHR 0x9F, CHR 0x93, CHR 0xA6]"
definition check_mark :: string where "check_mark = [CHR 0xE2, CHR 0x9C, CHR 0x85]"
definition cross_mark :: string where "cross_mark = [CHR 0xE2, CHR 0x9D, CHR 0x8C]"
definition antenna :: string where "antenna = [CHR 0xF0, CHR 0x9F, CHR 0x93, CHR 0xA1]"
definition empty_mailbox :: string where "empty_mailbox = [CHR 0xF0, CHR 0x9F, CHR 0x93, CHR 0xAD]"
definition wastebasket :: string where
  "wastebasket = [CHR 0xF0, CHR 0x9F, CHR 0x97, CHR 0x91, CHR 0xEF, CHR 0xB8, CHR 0x8F]"
definition warning_sign :: string where
  "warning_sign = [CHR 0xE2, CHR 0x9A, CHR 0xA0, CHR 0xEF, CHR 0xB8, CHR 0x8F]"
definition chequered_flag :: string where "chequered_flag = [CHR 0xF0, CHR 0x9F, CHR 0x8F, CHR 0x81]"

section \<open>The methods of the uploader\<close>

subsection \<open>\<^verbatim>\<open>send_message\<close> (lines 43 to 52)\<close>

definition header :: "uploader \<Rightarrow> string" where
  "header u = ''['' @ account_name u @ ''] ['' @ script_name u @ '']'' @ nl"

definition not_configured :: string where
  "not_configured = ''Telegram bot is not configured. Message not sent to Telegram.''"

definition send_message :: "world \<Rightarrow> uploader \<Rightarrow> string \<Rightarrow> level \<Rightarrow> unit prog" where
  "send_message w u msg lvl =
     (let full_msg = header u @ msg in
      try_except
        (bind
           (if telegram_bot u
            then call_unit (TelegramSend (telegram_chat_id u) full_msg)
                   (\<lambda>h. bot_send_message w h (telegram_chat_id u) full_msg)
            else emit (Log WARNING not_configured))
           (\<lambda>_. emit (Log lvl full_msg)))
        (\<lambda>e. emit (Log ERROR (''Telegram send error: '' @ str_exn e))))"

subsection \<open>\<^verbatim>\<open>refresh_dropbox_token\<close> (lines 54 to 63)\<close>

text \<open>
  \<^verbatim>\<open>Response.raise_for_status\<close> of the requests library raises \<^verbatim>\<open>HTTPError\<close> for a
  status from 400 to 599, and returns for every other status.
\<close>

definition raise_for_status :: "response \<Rightarrow> unit prog" where
  "raise_for_status r =
     (if 400 \<le> status_code r \<and> status_code r < 500
      then raise (HTTPError (str_nat (nat (status_code r)) @ '' Client Error: '' @ reason r
                             @ '' for url: '' @ url r))
      else if 500 \<le> status_code r \<and> status_code r < 600
      then raise (HTTPError (str_nat (nat (status_code r)) @ '' Server Error: '' @ reason r
                             @ '' for url: '' @ url r))
      else ret ())"

text \<open>
  \<^verbatim>\<open>d.get(k, default)\<close>: only a dictionary has the method; on any other value the
  attribute access raises \<^verbatim>\<open>AttributeError\<close>.
\<close>

fun type_name :: "pyval \<Rightarrow> string" where
  "type_name PNone = ''NoneType''"
| "type_name (PBool b) = ''bool''"
| "type_name (PInt i) = ''int''"
| "type_name (PStr s) = ''str''"
| "type_name (PList xs) = ''list''"
| "type_name (PDict kvs) = ''dict''"

definition no_attribute_get :: "pyval \<Rightarrow> exn" where
  "no_attribute_get v =
     AttributeError ([CHR 0x27] @ type_name v @ [CHR 0x27] @ '' object has no attribute ''
                     @ [CHR 0x27] @ ''get'' @ [CHR 0x27])"

definition py_get :: "pyval \<Rightarrow> string \<Rightarrow> pyval \<Rightarrow> pyval prog" where
  "py_get d k dflt =
     (case d of
        PDict kvs \<Rightarrow> ret (case map_of kvs k of Some v \<Rightarrow> v | None \<Rightarrow> dflt)
      | _ \<Rightarrow> raise (no_attribute_get d))"

definition token_data :: "uploader \<Rightarrow> (string \<times> pyval) list" where
  "token_data u =
     [(''grant_type'', PStr ''refresh_token''),
      (''refresh_token'', val_opt (dropbox_refresh_token u)),
      (''client_id'', val_opt (dropbox_app_key u)),
      (''client_secret'', val_opt (dropbox_app_secret u))]"

definition refresh_dropbox_token :: "world \<Rightarrow> uploader \<Rightarrow> pyval prog" where
  "refresh_dropbox_token w u =
     (let data = token_data u in
      bind (call (RequestsPost DROPBOX_TOKEN_URL data)
              (\<lambda>h. requests_post w h DROPBOX_TOKEN_URL data))
        (\<lambda>r. bind (raise_for_status r)
          (\<lambda>_. bind (ask (\<lambda>h. json_body r))
            (\<lambda>j. py_get j ''access_token'' PNone))))"

subsection \<open>\<^verbatim>\<open>list_dropbox_files\<close> (lines 65 to 68)\<close>

definition valid_exts :: "string list" where
  "valid_exts = [''.mp4'', ''.mov'', ''.jpg'', ''.jpeg'', ''.png'']"

definition list_dropbox_files :: "world \<Rightarrow> uploader \<Rightarrow> entry list prog" where
  "list_dropbox_files w u =
     bind (call (FilesListFolder (dropbox_folder u))
             (\<lambda>h. files_list_folder w h (dropbox_folder u)))
       (\<lambda>files. ret (filter (\<lambda>f. endswith (lower (name f)) valid_exts) files))"

subsection \<open>\<^verbatim>\<open>get_caption_from_config\<close> (lines 70 to 78)\<close>

definition default_caption :: "uploader \<Rightarrow> string" where
  "default_caption u = sparkles @ '' #'' @ account_name u @ '' '' @ sparkles"

definition get_caption_from_config :: "world \<Rightarrow> uploader \<Rightarrow> pyval prog" where
  "get_caption_from_config w u =
     try_except
       (bind (ask (\<lambda>h. json_load w h (schedule_file u)))
         (\<lambda>config. bind (ask (\<lambda>h. Inr (weekday w h)))
           (\<lambda>today. bind (py_get config (account_key u) (PDict []))
             (\<lambda>a. bind (py_get a today (PDict []))
               (\<lambda>d. py_get d ''caption'' (PStr (default_caption u)))))))
       (\<lambda>e. bind (emit (Log WARNING (''Could not load caption from config: '' @ str_exn e)))
          (\<lambda>_. ret (PStr (default_caption u))))"

subsection \<open>\<^verbatim>\<open>post_to_threads\<close> (lines 80 to 111)\<close>

definition truthy_link :: "string option \<Rightarrow> bool" where
  "truthy_link l = (case l of None \<Rightarrow> False | Some s \<Rightarrow> s \<noteq> [])"

definition post_url :: "uploader \<Rightarrow> string" where
  "post_url u = THREADS_API_BASE @ ''/'' @ str_opt (threads_user_id u) @ ''/threads''"

definition post_data :: "uploader \<Rightarrow> string \<Rightarrow> string option \<Rightarrow> pyval \<Rightarrow> (string \<times> pyval) list" where
  "post_data u media_type temp_link caption =
     [(''access_token'', val_opt (threads_access_token u)), (''text'', caption)]
     @ (if truthy_link temp_link
        then (if media_type = ''VIDEO''
              then [(''video_url'', val_opt temp_link), (''media_type'', PStr ''VIDEO'')]
              else [(''image_url'', val_opt temp_link), (''media_type'', PStr ''IMAGE'')])
        else [(''media_type'', PStr ''TEXT_POST'')])"

definition uploading_msg :: "entry \<Rightarrow> string \<Rightarrow> nat \<Rightarrow> string" where
  "uploading_msg file media_type total_files =
     rocket @ '' Uploading to Threads: '' @ name file @ nl
     @ triangle_ruler @ '' Type: '' @ media_type @ nl
     @ package @ '' Remaining: '' @ str_nat total_files"

definition posted_msg :: "entry \<Rightarrow> string" where
  "posted_msg file = check_mark @ '' Successfully posted to Threads: '' @ name file"

definition post_failed_msg :: "entry \<Rightarrow> response \<Rightarrow> string" where
  "post_failed_msg file res =
     cross_mark @ '' Threads post failed: '' @ name file @ nl @ text_body res"

text \<open>Lines 81 and 82.\<close>

definition media_type_of :: "entry \<Rightarrow> string" where
  "media_type_of file =
     (let nm = lower (name file) in
      if endswith nm [''.mp4'', ''.mov''] then ''VIDEO'' else ''IMAGE'')"

definition post_to_threads :: "world \<Rightarrow> uploader \<Rightarrow> entry \<Rightarrow> pyval \<Rightarrow> bool prog" where
  "post_to_threads w u file caption =
     (let media_type = media_type_of file
      in
      bind (call (FilesGetTemporaryLink (path_lower file))
              (\<lambda>h. files_get_temporary_link w h (path_lower file)))
        (\<lambda>temp_link. bind (list_dropbox_files w u)
          (\<lambda>files. bind (send_message w u (uploading_msg file media_type (length files)) INFO)
            (\<lambda>_. let data = post_data u media_type temp_link caption in
              bind (call (RequestsPost (post_url u) data)
                      (\<lambda>h. requests_post w h (post_url u) data))
                (\<lambda>res. if status_code res = 200
                        then bind (send_message w u (posted_msg file) INFO) (\<lambda>_. ret True)
                        else bind (send_message w u (post_failed_msg file res) ERROR)
                               (\<lambda>_. ret False))))))"

subsection \<open>\<^verbatim>\<open>authenticate_dropbox\<close> (lines 113 to 115)\<close>

definition authenticate_dropbox :: "world \<Rightarrow> uploader \<Rightarrow> unit prog" where
  "authenticate_dropbox w u =
     bind (refresh_dropbox_token w u)
       (\<lambda>access_token. call_unit (DropboxNew access_token) (\<lambda>h. dropbox_new w h access_token))"

subsection \<open>\<^verbatim>\<open>run\<close> (lines 117 to 139)\<close>

text \<open>
  \<^verbatim>\<open>random.choice(seq)\<close> raises \<^verbatim>\<open>IndexError\<close> on an empty sequence and otherwise
  returns the element at a drawn index below \<open>len(seq)\<close>; the raw draw of the world is
  reduced modulo the length, so that every world gives such an index.
\<close>

definition random_choice :: "world \<Rightarrow> 'a list \<Rightarrow> 'a prog" where
  "random_choice w xs =
     (if xs = [] then raise (IndexError ''Cannot choose from an empty sequence'')
      else ask (\<lambda>h. Inr (xs ! (randbelow w h (length xs) mod length xs))))"

definition started_msg :: "string \<Rightarrow> string" where
  "started_msg now = antenna @ '' Threads Run started at: '' @ now"

definition no_files_msg :: string where
  "no_files_msg = empty_mailbox @ '' No files found in Dropbox folder.''"

definition deleted_msg :: "entry \<Rightarrow> string" where
  "deleted_msg file = wastebasket @ '' Deleted file after attempt: '' @ name file"

definition delete_failed_msg :: "entry \<Rightarrow> exn \<Rightarrow> string" where
  "delete_failed_msg file e =
     warning_sign @ '' Failed to delete file '' @ name file @ '': '' @ str_exn e"

definition crashed_msg :: "exn \<Rightarrow> string" where
  "crashed_msg e = cross_mark @ '' Script crashed: '' @ str_exn e"

definition complete_msg :: "string \<Rightarrow> string" where
  "complete_msg duration = chequered_flag @ '' Run complete in '' @ duration @ '' seconds''"

text \<open>The statements of the \<^verbatim>\<open>try\<close> block (lines 120 to 133).\<close>

definition run_body :: "world \<Rightarrow> uploader \<Rightarrow> unit prog" where
  "run_body w u =
     bind (get_caption_from_config w u)
       (\<lambda>caption. bind (authenticate_dropbox w u)
         (\<lambda>dbx. bind (list_dropbox_files w u)
           (\<lambda>files. if files = []
             then send_message w u no_files_msg INFO
             else bind (random_choice w files)
               (\<lambda>file. bind (post_to_threads w u file caption)
                 (\<lambda>success. try_except
                    (bind (call_unit (FilesDeleteV2 (path_lower file))
                             (\<lambda>h. files_delete_v2 w h (path_lower file)))
                       (\<lambda>_. send_message w u (deleted_msg file) INFO))
                    (\<lambda>e. send_message w u (delete_failed_msg file e) WARNING))))))"

text \<open>
  The whole method: the start notification, then the \<^verbatim>\<open>try\<close> block with its
  \<^verbatim>\<open>except Exception\<close> handler and its \<^verbatim>\<open>finally\<close> clause. The early \<^verbatim>\<open>return\<close> of
  line 125 ends the block normally, and the \<^verbatim>\<open>finally\<close> clause still runs.
\<close>

definition run :: "world \<Rightarrow> uploader \<Rightarrow> unit prog" where
  "run w u =
     bind (bind (ask (\<lambda>h. Inr (timestamp w h)))
             (\<lambda>now. send_message w u (started_msg now) INFO))
       (\<lambda>_. try_finally
          (try_except (run_body w u) (\<lambda>e. send_message w u (crashed_msg e) ERROR))
          (bind (ask (\<lambda>h. Inr (elapsed w h)))
             (\<lambda>duration. send_message w u (complete_msg duration) INFO)))"

section \<open>Observing the events of a run\<close>

text \<open>
  A notification is one call of \<^verbatim>\<open>send_message\<close>. Its message is read back from the
  events: from the text handed to the bot when a bot is configured, and from the log record
  carrying the header otherwise. The three fixed log texts of the program do not start with
  the header (it starts with a bracket), so they are not notifications.
\<close>

definition strip_header :: "uploader \<Rightarrow> string \<Rightarrow> string option" where
  "strip_header u t = (if prefix (header u) t then Some (drop (length (header u)) t) else None)"

fun notice_of :: "uploader \<Rightarrow> event \<Rightarrow> string option" where
  "notice_of u (TelegramSend c t) = strip_header u t"
| "notice_of u (Log l t) = (if telegram_bot u then None else strip_header u t)"
| "notice_of u (RequestsPost a d) = None"
| "notice_of u (DropboxNew t) = None"
| "notice_of u (FilesListFolder p) = None"
| "notice_of u (FilesGetTemporaryLink p) = None"
| "notice_of u (FilesDeleteV2 p) = None"

fun notices :: "uploader \<Rightarrow> event list \<Rightarrow> string list" where
  "notices u [] = []"
| "notices u (ev # es) =
     (case notice_of u ev of None \<Rightarrow> notices u es | Some m \<Rightarrow> m # notices u es)"


fun is_delete :: "event \<Rightarrow> bool" where
  "is_delete (FilesDeleteV2 p) = True"
| "is_delete ev = False"

fun is_publish :: "uploader \<Rightarrow> event \<Rightarrow> bool" where
  "is_publish u (RequestsPost a d) = (a = post_url u)"
| "is_publish u ev = False"

text \<open>The events that one call of \<^verbatim>\<open>send_message\<close> adds.\<close>

definition sent :: "world \<Rightarrow> uploader \<Rightarrow> string \<Rightarrow> level \<Rightarrow> event list \<Rightarrow> event list" where
  "sent w u msg lvl h = snd (send_message w u msg lvl h)"

text \<open>
  The history at the moment \<^verbatim>\<open>post_to_threads\<close>, started at history \<open>h\<close>, sends its
  request, when the link fetch and the listing (of \<open>n\<close> eligible files) have returned.
\<close>

definition post_history :: "world \<Rightarrow> uploader \<Rightarrow> entry \<Rightarrow> nat \<Rightarrow> event list \<Rightarrow> event list" where
  "post_history w u file n h =
     (let h2 = h @ [FilesGetTemporaryLink (path_lower file), FilesListFolder (dropbox_folder u)]
      in h2 @ sent w u (uploading_msg file (media_type_of file) n) INFO h2)"

text \<open>
  The histories of a run started at history \<open>h\<close>: when the \<^verbatim>\<open>try\<close> block is entered,
  when \<^verbatim>\<open>authenticate_dropbox\<close> is called, when \<^verbatim>\<open>list_dropbox_files\<close> is called (if
  the authentication returned), and when a file is chosen (if the listing returned).
\<close>

definition start_history :: "world \<Rightarrow> uploader \<Rightarrow> event list \<Rightarrow> event list" where
  "start_history w u h = h @ sent w u (started_msg (timestamp w h)) INFO h"

definition auth_history :: "world \<Rightarrow> uploader \<Rightarrow> event list \<Rightarrow> event list" where
  "auth_history w u h =
     start_history w u h @ snd (get_caption_from_config w u (start_history w u h))"

definition list_history :: "world \<Rightarrow> uploader \<Rightarrow> event list \<Rightarrow> event list" where
  "list_history w u h =
     auth_history w u h @ snd (authenticate_dropbox w u (auth_history w u h))"

definition choice_history :: "world \<Rightarrow> uploader \<Rightarrow> event list \<Rightarrow> event list" where
  "choice_history w u h = list_history w u h @ [FilesListFolder (dropbox_folder u)]"

text \<open>The text every completion notification starts with.\<close>

definition complete_prefix :: string where
  "complete_prefix = chequered_flag @ '' Run complete in ''"

text \<open>An event that is no completion notification.\<close>

definition not_complete :: "uploader \<Rightarrow> event \<Rightarrow> bool" where
  "not_complete u ev =
     (case notice_of u ev of None \<Rightarrow> True | Some m \<Rightarrow> \<not> prefix complete_prefix m)"

text \<open>\<open>emits P m\<close>: every event that \<open>m\<close> adds, from any history, satisfies \<open>P\<close>.\<close>

definition emits :: "(event \<Rightarrow> bool) \<Rightarrow> 'a prog \<Rightarrow> bool" where
  "emits P m = (\<forall>h. list_all P (snd (m h)))"

text \<open>
  The lookup of the specification, \<^verbatim>\<open>table[account_key][today_weekday]["caption"]\<close>:
  the value found by following the three keys through dictionaries, if there is one.
\<close>

definition table_caption :: "pyval \<Rightarrow> string \<Rightarrow> string \<Rightarrow> pyval option" where
  "table_caption table key day =
     (case table of
        PDict accounts \<Rightarrow>
          (case map_of accounts key of
             Some (PDict days) \<Rightarrow>
               (case map_of days day of
                  Some (PDict d) \<Rightarrow> map_of d ''caption''
                | _ \<Rightarrow> None)
           | _ \<Rightarrow> None)
      | _ \<Rightarrow> None)"

section \<open>Concrete accounts and worlds\<close>

text \<open>The inputs at which the theorems below are evaluated.\<close>

definition acct1 :: uploader where
  "acct1 = \<lparr>account_name = ''eclipsed.by.you'', schedule_file = ''caption/config.json'',
     threads_access_token = Some ''tat'', threads_user_id = Some ''1001'',
     dropbox_app_key = Some ''key'', dropbox_app_secret = Some ''secret'',
     dropbox_refresh_token = Some ''refresh'', dropbox_folder = ''/Threads_1'',
     telegram_bot_token = None, telegram_chat_id = None\<rparr>"

definition acct1_bot :: uploader where
  "acct1_bot = acct1\<lparr>telegram_bot_token := Some ''bot'', telegram_chat_id := Some ''42''\<rparr>"

definition clip :: entry where
  "clip = \<lparr>name = ''clip.mp4'', path_lower = ''/threads_1/clip.mp4''\<rparr>"

definition shot :: entry where
  "shot = \<lparr>name = ''shot.png'', path_lower = ''/threads_1/shot.png''\<rparr>"

definition token_response :: response where
  "token_response = \<lparr>status_code = 200, text_body = [],
     json_body = Inr (PDict [(''access_token'', PStr ''sl.token'')]),
     reason = ''OK'', url = DROPBOX_TOKEN_URL\<rparr>"

definition table1 :: pyval where
  "table1 = PDict [(''eclipsed.by.you'', PDict [(''Monday'', PDict [(''caption'', PStr ''Fresh week'')])])]"

definition calm :: world where
  "calm = \<lparr>bot_send_message = (\<lambda>h c t. None),
     requests_post = (\<lambda>h a d. Inr token_response),
     dropbox_new = (\<lambda>h t. None),
     files_list_folder = (\<lambda>h p. Inr [clip, shot]),
     files_get_temporary_link = (\<lambda>h p. Inr (Some ''https://dl.example/clip'')),
     files_delete_v2 = (\<lambda>h p. None),
     json_load = (\<lambda>h p. Inr table1),
     weekday = (\<lambda>h. ''Monday''),
     timestamp = (\<lambda>h. ''2024-01-01 09:00:00''),
     elapsed = (\<lambda>h. ''1.5''),
     randbelow = (\<lambda>h n. 0)\<rparr>"

definition bot_down :: world where
  "bot_down = calm\<lparr>bot_send_message := (\<lambda>h c t. Some (WorldError ''Timed out''))\<rparr>"

definition upper_names :: world where
  "upper_names = calm\<lparr>files_list_folder := (\<lambda>h p.
     Inr [\<lparr>name = ''a.MP4'', path_lower = ''/threads_1/a.mp4''\<rparr>,
          \<lparr>name = ''b.PNG'', path_lower = ''/threads_1/b.png''\<rparr>,
          \<lparr>name = ''c.txt'', path_lower = ''/threads_1/c.txt''\<rparr>])\<rparr>"

definition no_token :: world where
  "no_token = calm\<lparr>requests_post := (\<lambda>h a d.
     Inr (token_response\<lparr>json_body := Inr (PDict [(''error'', PStr ''invalid_grant'')])\<rparr>))\<rparr>"

definition link_down :: world where
  "link_down = calm\<lparr>files_get_temporary_link := (\<lambda>h p. Inl (WorldError ''Connection reset''))\<rparr>"

definition no_link :: world where
  "no_link = calm\<lparr>files_get_temporary_link := (\<lambda>h p. Inr None)\<rparr>"

definition bad_request :: response where
  "bad_request = \<lparr>status_code = 400, text_body = ''Invalid OAuth access token'',
     json_body = Inr (PDict [(''error'', PStr ''OAuthException'')]),
     reason = ''Bad Request'', url = ''https://graph.threads.net/v1.0/1001/threads''\<rparr>"

definition post_down :: world where
  "post_down = calm\<lparr>requests_post := (\<lambda>h a d.
     if a = DROPBOX_TOKEN_URL then Inr token_response
     else Inl (WorldError ''Connection aborted''))\<rparr>"

definition rejected :: world where
  "rejected = calm\<lparr>requests_post := (\<lambda>h a d.
     if a = DROPBOX_TOKEN_URL then Inr token_response else Inr bad_request)\<rparr>"

definition empty_folder :: world where
  "empty_folder = calm\<lparr>files_list_folder := (\<lambda>h p. Inr [])\<rparr>"




text \<open>
  A world whose Dropbox constructor behaves as the SDK does: it raises when it is given no
  access token.
\<close>

definition strict_sdk :: world where
  "strict_sdk = no_token\<lparr>dropbox_new := (\<lambda>h t.
     if t = PNone
     then Some (WorldError ''OAuth2 access token or refresh token or app key/secret must be set'')
     else None)\<rparr>"

section \<open>Basic facts\<close>

lemma send_message_fst: "fst (send_message w u msg lvl h) = Inr ()"
  by (simp add: send_message_def try_except_def bind_def call_unit_def emit_def Let_def
      split: option.splits prod.splits sum.splits)

lemma send_message_snd:
  "snd (send_message w u msg lvl h) =
     (if telegram_bot u
      then (case bot_send_message w h (telegram_chat_id u) (header u @ msg) of
              None \<Rightarrow> [TelegramSend (telegram_chat_id u) (header u @ msg), Log lvl (header u @ msg)]
            | Some e \<Rightarrow> [TelegramSend (telegram_chat_id u) (header u @ msg),
                          Log ERROR (''Telegram send error: '' @ str_exn e)])
      else [Log WARNING not_configured, Log lvl (header u @ msg)])"
  by (simp add: send_message_def try_except_def bind_def call_unit_def emit_def Let_def
      split: option.splits prod.splits sum.splits)

lemma send_message_eq: "send_message w u msg lvl h = (Inr (), sent w u msg lvl h)"
  by (simp add: sent_def prod_eq_iff send_message_fst)

lemma sent_cases:
  "sent w u msg lvl h =
     (if telegram_bot u
      then (case bot_send_message w h (telegram_chat_id u) (header u @ msg) of
              None \<Rightarrow> [TelegramSend (telegram_chat_id u) (header u @ msg), Log lvl (header u @ msg)]
            | Some e \<Rightarrow> [TelegramSend (telegram_chat_id u) (header u @ msg),
                          Log ERROR (''Telegram send error: '' @ str_exn e)])
      else [Log WARNING not_configured, Log lvl (header u @ msg)])"
  by (simp add: sent_def send_message_snd)

lemma strip_header_same [simp]: "strip_header u (header u @ m) = Some m"
  by (simp add: strip_header_def)

lemma strip_header_not_configured [simp]: "strip_header u not_configured = None"
  by (simp add: strip_header_def header_def not_configured_def)

lemma strip_header_send_error [simp]: "strip_header u (''Telegram send error: '' @ x) = None"
  by (simp add: strip_header_def header_def)

lemma strip_header_caption_warning [simp]:
  "strip_header u (''Could not load caption from config: '' @ x) = None"
  by (simp add: strip_header_def header_def)

lemma notices_append [simp]: "notices u (xs @ ys) = notices u xs @ notices u ys"
  by (induction xs) (auto split: option.splits)

lemma notices_sent [simp]: "notices u (sent w u msg lvl h) = [msg]"
  by (simp add: sent_cases split: option.splits)

lemma filter_sent:
  "(\<And>c t. \<not> P (TelegramSend c t)) \<Longrightarrow> (\<And>l t. \<not> P (Log l t)) \<Longrightarrow>
   filter P (sent w u msg lvl h) = []"
  by (simp add: sent_cases split: option.splits)

lemma emitsD: "emits P m \<Longrightarrow> list_all P (snd (m h))"
  by (simp add: emits_def)

lemma emits_ret: "emits P (ret x)"
  by (simp add: emits_def ret_def)

lemma emits_raise: "emits P (raise e)"
  by (simp add: emits_def raise_def)

lemma emits_ask: "emits P (ask a)"
  by (simp add: emits_def ask_def)

lemma emits_emit: "P ev \<Longrightarrow> emits P (emit ev)"
  by (simp add: emits_def emit_def)

lemma emits_call: "P ev \<Longrightarrow> emits P (call ev a)"
  by (simp add: emits_def call_def)

lemma emits_call_unit: "P ev \<Longrightarrow> emits P (call_unit ev a)"
  by (simp add: emits_def call_unit_def)

lemma emits_bind: "emits P m \<Longrightarrow> (\<And>x. emits P (f x)) \<Longrightarrow> emits P (bind m f)"
  by (auto simp: emits_def bind_def split: prod.splits sum.splits)
     (metis snd_conv)+

lemma emits_try_except:
  "emits P m \<Longrightarrow> (\<And>e. emits P (f e)) \<Longrightarrow> emits P (try_except m f)"
  by (auto simp: emits_def try_except_def split: prod.splits sum.splits)
     (metis snd_conv)+

lemma emits_try_finally: "emits P m \<Longrightarrow> emits P fin \<Longrightarrow> emits P (try_finally m fin)"
  by (auto simp: emits_def try_finally_def split: prod.splits sum.splits)
     (metis snd_conv)+

lemma emits_if: "(c \<Longrightarrow> emits P a) \<Longrightarrow> (\<not> c \<Longrightarrow> emits P b) \<Longrightarrow> emits P (if c then a else b)"
  by simp

section \<open>The notifier\<close>

text \<open>
  C9. \<^verbatim>\<open>send_message\<close> never raises, whatever the message, the level, the world and the
  history. Without a bot it logs the warning and the message locally; when the delivery
  raises, the error is caught and logged; every text handed to the bot starts with the
  account name and the script name in brackets.
\<close>

theorem send_message_never_raises:
  "fst (send_message w u msg lvl h) = Inr () \<and>
   (\<not> telegram_bot u \<longrightarrow>
      snd (send_message w u msg lvl h) = [Log WARNING not_configured, Log lvl (header u @ msg)]) \<and>
   (\<forall>e. telegram_bot u \<and> bot_send_message w h (telegram_chat_id u) (header u @ msg) = Some e \<longrightarrow>
      snd (send_message w u msg lvl h) =
        [TelegramSend (telegram_chat_id u) (header u @ msg),
         Log ERROR (''Telegram send error: '' @ str_exn e)]) \<and>
   (\<forall>c t. TelegramSend c t \<in> set (snd (send_message w u msg lvl h)) \<longrightarrow>
      t = ''['' @ account_name u @ ''] ['' @ account_name u @ ''_threads_post.py]'' @ nl @ msg)"
  by (auto simp: send_message_fst send_message_snd header_def script_name_def
           split: option.splits)

theorem send_message_never_raises_witness:
  "\<not> telegram_bot acct1 \<and>
   snd (send_message calm acct1 ''hello'' INFO []) =
     [Log WARNING not_configured, Log INFO (header acct1 @ ''hello'')] \<and>
   telegram_bot acct1_bot \<and>
   bot_send_message bot_down [] (telegram_chat_id acct1_bot) (header acct1_bot @ ''hello'')
     = Some (WorldError ''Timed out'') \<and>
   send_message bot_down acct1_bot ''hello'' INFO [] =
     (Inr (), [TelegramSend (Some ''42'') (''[eclipsed.by.you] [eclipsed.by.you_threads_post.py]'' @ nl @ ''hello''),
      Log ERROR ''Telegram send error: Timed out''])"
proof -
  have a: "\<not> telegram_bot acct1"
    by (simp add: telegram_bot_def acct1_def)
  have b: "telegram_bot acct1_bot"
    by (simp add: telegram_bot_def acct1_bot_def acct1_def)
  have c: "bot_send_message bot_down [] (telegram_chat_id acct1_bot) (header acct1_bot @ ''hello'')
     = Some (WorldError ''Timed out'')"
    by (simp add: bot_down_def)
  have d: "telegram_chat_id acct1_bot = Some ''42''"
    by (simp add: acct1_bot_def)
  have e: "header acct1_bot = ''[eclipsed.by.you] [eclipsed.by.you_threads_post.py]'' @ nl"
    by (simp add: acct1_bot_def acct1_def header_def script_name_def)
  from send_message_never_raises [of calm acct1 "''hello''" INFO "[]"] a
  have 1: "snd (send_message calm acct1 ''hello'' INFO []) =
     [Log WARNING not_configured, Log INFO (header acct1 @ ''hello'')]"
    by blast
  from send_message_never_raises [of bot_down acct1_bot "''hello''" INFO "[]"] b c
  have 2: "fst (send_message bot_down acct1_bot ''hello'' INFO []) = Inr ()"
    and 3: "snd (send_message bot_down acct1_bot ''hello'' INFO []) =
        [TelegramSend (telegram_chat_id acct1_bot) (header acct1_bot @ ''hello''),
         Log ERROR (''Telegram send error: '' @ str_exn (WorldError ''Timed out''))]"
    by blast+
  from 2 3 have 4: "send_message bot_down acct1_bot ''hello'' INFO [] =
     (Inr (), [TelegramSend (Some ''42'') (''[eclipsed.by.you] [eclipsed.by.you_threads_post.py]'' @ nl @ ''hello''),
      Log ERROR ''Telegram send error: Timed out''])"
    by (simp add: d e prod_eq_iff)
  from a b c 1 4 show ?thesis by blast
qed

section \<open>The eligible files\<close>

lemma endswith1_suffix: "endswith1 s x = suffix x s"
  unfolding endswith1_def
  by (metis append_take_drop_id suffix_drop suffix_length_le suffix_take append_eq_conv_conj)

lemma endswith_suffix: "endswith s t = (\<exists>x \<in> set t. suffix x s)"
  by (simp add: endswith_def list_ex_iff endswith1_suffix)

text \<open>
  C6. Whenever the folder listing returns, \<^verbatim>\<open>list_dropbox_files\<close> keeps, in order, exactly
  the entries whose lowercased name ends in \<^verbatim>\<open>.mp4\<close>, \<^verbatim>\<open>.mov\<close>, \<^verbatim>\<open>.jpg\<close>,
  \<^verbatim>\<open>.jpeg\<close> or \<^verbatim>\<open>.png\<close>. The witness is the listing \<^verbatim>\<open>a.MP4, b.PNG, c.txt\<close>, of which
  the first two are kept.
\<close>

theorem list_dropbox_files_eligible:
  "files_list_folder w h (dropbox_folder u) = Inr entries \<Longrightarrow>
   list_dropbox_files w u h =
     (Inr (filter (\<lambda>f. suffix ''.mp4'' (lower (name f)) \<or> suffix ''.mov'' (lower (name f))
                       \<or> suffix ''.jpg'' (lower (name f)) \<or> suffix ''.jpeg'' (lower (name f))
                       \<or> suffix ''.png'' (lower (name f))) entries),
      [FilesListFolder (dropbox_folder u)])"
  by (simp add: list_dropbox_files_def bind_def call_def ret_def endswith_suffix valid_exts_def)

theorem list_dropbox_files_eligible_witness:
  "fst (list_dropbox_files upper_names acct1 []) =
     Inr [\<lparr>name = ''a.MP4'', path_lower = ''/threads_1/a.mp4''\<rparr>,
          \<lparr>name = ''b.PNG'', path_lower = ''/threads_1/b.png''\<rparr>]"
proof -
  have "files_list_folder upper_names [] (dropbox_folder acct1) =
     Inr [\<lparr>name = ''a.MP4'', path_lower = ''/threads_1/a.mp4''\<rparr>,
          \<lparr>name = ''b.PNG'', path_lower = ''/threads_1/b.png''\<rparr>,
          \<lparr>name = ''c.txt'', path_lower = ''/threads_1/c.txt''\<rparr>]"
    by (simp add: upper_names_def)
  from list_dropbox_files_eligible [OF this]
  have "fst (list_dropbox_files upper_names acct1 []) = 
    Inr (filter (\<lambda>f. suffix ''.mp4'' (lower (name f)) \<or> suffix ''.mov'' (lower (name f))
                       \<or> suffix ''.jpg'' (lower (name f)) \<or> suffix ''.jpeg'' (lower (name f))
                       \<or> suffix ''.png'' (lower (name f))) [\<lparr>name = ''a.MP4'', path_lower = ''/threads_1/a.mp4''\<rparr>,
          \<lparr>name = ''b.PNG'', path_lower = ''/threads_1/b.png''\<rparr>,
          \<lparr>name = ''c.txt'', path_lower = ''/threads_1/c.txt''\<rparr>])" by simp
  also have "\<dots> = Inr [\<lparr>name = ''a.MP4'', path_lower = ''/threads_1/a.mp4''\<rparr>,
          \<lparr>name = ''b.PNG'', path_lower = ''/threads_1/b.png''\<rparr>]"
    by code_simp
  finally show ?thesis .
qed

section \<open>Caption resolution\<close>

lemma py_get_dict: "py_get (PDict kvs) k d h = (Inr (case map_of kvs k of Some v \<Rightarrow> v | None \<Rightarrow> d), [])"
  by (simp add: py_get_def ret_def)

text \<open>
  C5. \<^verbatim>\<open>get_caption_from_config\<close> never raises. When the schedule file loads and the
  table defines a caption for the account key and today's weekday, the result is exactly
  that value; in every other case (the file cannot be opened or parsed, a key is missing,
  or a level of the table is not a dictionary) the result is the default
  sparkles, \<^verbatim>\<open>#\<close>account name, sparkles.
\<close>

theorem get_caption_from_config_resolves:
  "fst (get_caption_from_config w u h) =
     Inr (case json_load w h (schedule_file u) of
            Inl e \<Rightarrow> PStr (sparkles @ '' #'' @ account_name u @ '' '' @ sparkles)
          | Inr table \<Rightarrow>
              (case table_caption table (account_key u) (weekday w h) of
                 Some c \<Rightarrow> c
               | None \<Rightarrow> PStr (sparkles @ '' #'' @ account_name u @ '' '' @ sparkles)))"
  by (simp add: get_caption_from_config_def try_except_def bind_def ask_def emit_def ret_def
        raise_def py_get_def table_caption_def default_caption_def
      split: sum.splits pyval.splits option.splits prod.splits)

lemma get_caption_monday: "get_caption_from_config calm acct1 [] = (Inr (PStr ''Fresh week''), [])"
  by (simp add: get_caption_from_config_def try_except_def bind_def ask_def emit_def ret_def
        raise_def py_get_def calm_def acct1_def table1_def account_key_def)

section \<open>Credential refresh\<close>

lemma raise_for_status_ok:
  "\<not> (400 \<le> status_code r \<and> status_code r < 600) \<Longrightarrow> raise_for_status r h = (Inr (), [])"
  by (auto simp: raise_for_status_def ret_def)

text \<open>
  C10, as the code has it. When the token response has a 2xx status and its JSON body is
  an object without the key \<^verbatim>\<open>access_token\<close>, \<^verbatim>\<open>refresh_dropbox_token\<close> returns
  \<^verbatim>\<open>None\<close> without raising, and \<^verbatim>\<open>authenticate_dropbox\<close> goes on to call the Dropbox
  constructor with \<^verbatim>\<open>None\<close>. Whether a session comes out of that call is the
  constructor's decision: when it returns, \<^verbatim>\<open>authenticate_dropbox\<close> returns; when it
  raises, \<^verbatim>\<open>authenticate_dropbox\<close> raises the same exception.
\<close>

theorem refresh_without_access_token:
  assumes "requests_post w h DROPBOX_TOKEN_URL (token_data u) = Inr r"
    and "200 \<le> status_code r" and "status_code r < 300"
    and "json_body r = Inr (PDict kvs)" and "map_of kvs ''access_token'' = None"
  shows "refresh_dropbox_token w u h = (Inr PNone, [RequestsPost DROPBOX_TOKEN_URL (token_data u)]) \<and>
         snd (authenticate_dropbox w u h) =
           [RequestsPost DROPBOX_TOKEN_URL (token_data u), DropboxNew PNone] \<and>
         (dropbox_new w (h @ [RequestsPost DROPBOX_TOKEN_URL (token_data u)]) PNone = None \<longrightarrow>
            fst (authenticate_dropbox w u h) = Inr ()) \<and>
         (\<forall>e. dropbox_new w (h @ [RequestsPost DROPBOX_TOKEN_URL (token_data u)]) PNone = Some e \<longrightarrow>
            fst (authenticate_dropbox w u h) = Inl e)"
proof -
  have ok: "\<And>h'. raise_for_status r h' = (Inr (), [])"
    using assms(2,3) by (intro raise_for_status_ok) simp
  have r: "refresh_dropbox_token w u h = (Inr PNone, [RequestsPost DROPBOX_TOKEN_URL (token_data u)])"
    using assms(1,4,5)
    by (simp add: refresh_dropbox_token_def Let_def bind_def call_def ask_def ok py_get_dict)
  then show ?thesis
    by (simp add: authenticate_dropbox_def bind_def call_unit_def)
qed

theorem refresh_without_access_token_witness:
  "refresh_dropbox_token no_token acct1 [] =
     (Inr PNone, [RequestsPost DROPBOX_TOKEN_URL (token_data acct1)]) \<and>
   snd (authenticate_dropbox no_token acct1 []) =
     [RequestsPost DROPBOX_TOKEN_URL (token_data acct1), DropboxNew PNone] \<and>
   fst (authenticate_dropbox no_token acct1 []) = Inr () \<and>
   fst (authenticate_dropbox strict_sdk acct1 []) =
     Inl (WorldError ''OAuth2 access token or refresh token or app key/secret must be set'')"
proof -
  let ?r = "token_response\<lparr>json_body := Inr (PDict [(''error'', PStr ''invalid_grant'')])\<rparr>"
  have 1: "requests_post no_token [] DROPBOX_TOKEN_URL (token_data acct1) = Inr ?r"
    and q: "requests_post strict_sdk [] DROPBOX_TOKEN_URL (token_data acct1) = Inr ?r"
    by (simp_all add: no_token_def strict_sdk_def)
  have 2: "200 \<le> status_code ?r" and 3: "status_code ?r < 300"
    by (simp_all add: token_response_def)
  have 4: "json_body ?r = Inr (PDict [(''error'', PStr ''invalid_grant'')])" by simp
  have 5: "map_of [(''error'', PStr ''invalid_grant'')] ''access_token'' = None" by simp
  have 6: "dropbox_new no_token ([] @ [RequestsPost DROPBOX_TOKEN_URL (token_data acct1)]) PNone = None"
    by (simp add: no_token_def calm_def)
  have 7: "dropbox_new strict_sdk ([] @ [RequestsPost DROPBOX_TOKEN_URL (token_data acct1)]) PNone =
      Some (WorldError ''OAuth2 access token or refresh token or app key/secret must be set'')"
    by (simp add: strict_sdk_def)
  from refresh_without_access_token [OF 1 2 3 4 5] refresh_without_access_token [OF q 2 3 4 5] 6 7
  show ?thesis by blast
qed

text \<open>
  C10, as stated, fails in its second part: with the constructor of the SDK, which rejects
  a missing token, the refresh step still returns \<^verbatim>\<open>None\<close> without raising, the
  constructor is called with \<^verbatim>\<open>None\<close>, and no session is constructed:
  \<^verbatim>\<open>authenticate_dropbox\<close> raises.
\<close>

theorem no_session_counterexample:
  "refresh_dropbox_token strict_sdk acct1 [] =
     (Inr PNone, [RequestsPost DROPBOX_TOKEN_URL (token_data acct1)]) \<and>
   authenticate_dropbox strict_sdk acct1 [] =
     (Inl (WorldError ''OAuth2 access token or refresh token or app key/secret must be set''),
      [RequestsPost DROPBOX_TOKEN_URL (token_data acct1), DropboxNew PNone])"
  by (simp add: authenticate_dropbox_def refresh_dropbox_token_def Let_def bind_def call_def
        call_unit_def ask_def raise_for_status_def ret_def py_get_def strict_sdk_def no_token_def
        calm_def token_response_def)

section \<open>The publisher\<close>

lemma list_dropbox_files_eq:
  "list_dropbox_files w u h =
     (case files_list_folder w h (dropbox_folder u) of
        Inl e \<Rightarrow> Inl e
      | Inr entries \<Rightarrow> Inr (filter (\<lambda>f. endswith (lower (name f)) valid_exts) entries),
      [FilesListFolder (dropbox_folder u)])"
  by (simp add: list_dropbox_files_def bind_def call_def ret_def split: sum.splits)

lemma list_dropbox_files_snd:
  "snd (list_dropbox_files w u h) = [FilesListFolder (dropbox_folder u)]"
  by (simp add: list_dropbox_files_eq)

lemma post_to_threads_link_raises:
  "files_get_temporary_link w h (path_lower file) = Inl e \<Longrightarrow>
   post_to_threads w u file caption h = (Inl e, [FilesGetTemporaryLink (path_lower file)])"
  by (simp add: post_to_threads_def Let_def bind_def call_def)

lemma post_to_threads_list_raises:
  "files_get_temporary_link w h (path_lower file) = Inr lnk \<Longrightarrow>
   fst (list_dropbox_files w u (h @ [FilesGetTemporaryLink (path_lower file)])) = Inl e \<Longrightarrow>
   post_to_threads w u file caption h =
     (Inl e, [FilesGetTemporaryLink (path_lower file), FilesListFolder (dropbox_folder u)])"
  by (simp add: post_to_threads_def Let_def bind_def call_def list_dropbox_files_eq
      split: sum.splits)

lemma post_to_threads_post_raises:
  "files_get_temporary_link w h (path_lower file) = Inr lnk \<Longrightarrow>
   fst (list_dropbox_files w u (h @ [FilesGetTemporaryLink (path_lower file)])) = Inr files \<Longrightarrow>
   requests_post w (post_history w u file (length files) h) (post_url u)
     (post_data u (media_type_of file) lnk caption) = Inl e \<Longrightarrow>
   post_to_threads w u file caption h =
     (Inl e, drop (length h) (post_history w u file (length files) h)
             @ [RequestsPost (post_url u) (post_data u (media_type_of file) lnk caption)])"
  by (simp add: post_to_threads_def Let_def bind_def call_def list_dropbox_files_eq
        post_history_def send_message_eq
      split: sum.splits)

lemma post_to_threads_post_returns:
  "files_get_temporary_link w h (path_lower file) = Inr lnk \<Longrightarrow>
   fst (list_dropbox_files w u (h @ [FilesGetTemporaryLink (path_lower file)])) = Inr files \<Longrightarrow>
   requests_post w (post_history w u file (length files) h) (post_url u)
     (post_data u (media_type_of file) lnk caption) = Inr res \<Longrightarrow>
   post_to_threads w u file caption h =
     (Inr (status_code res = 200),
      drop (length h) (post_history w u file (length files) h)
      @ [RequestsPost (post_url u) (post_data u (media_type_of file) lnk caption)]
      @ sent w u
               (if status_code res = 200 then posted_msg file else post_failed_msg file res)
               (if status_code res = 200 then INFO else ERROR)
               (post_history w u file (length files) h
                @ [RequestsPost (post_url u) (post_data u (media_type_of file) lnk caption)]))"
  by (simp add: post_to_threads_def Let_def bind_def call_def list_dropbox_files_eq
        post_history_def send_message_eq ret_def
      split: sum.splits)

lemma drop_post_history:
  "drop (length h) (post_history w u file n h) =
     [FilesGetTemporaryLink (path_lower file), FilesListFolder (dropbox_folder u)]
     @ sent w u (uploading_msg file (media_type_of file) n) INFO
         (h @ [FilesGetTemporaryLink (path_lower file), FilesListFolder (dropbox_folder u)])"
  by (simp add: post_history_def Let_def)

lemma post_data_cases:
  "post_data u (media_type_of file) lnk caption =
     [(''access_token'', val_opt (threads_access_token u)), (''text'', caption)] @
     (case lnk of
        Some (c # cs) \<Rightarrow>
          if suffix ''.mp4'' (lower (name file)) \<or> suffix ''.mov'' (lower (name file))
          then [(''video_url'', PStr (c # cs)), (''media_type'', PStr ''VIDEO'')]
          else [(''image_url'', PStr (c # cs)), (''media_type'', PStr ''IMAGE'')]
      | _ \<Rightarrow> [(''media_type'', PStr ''TEXT_POST'')])"
  by (simp add: post_data_def media_type_of_def truthy_link_def endswith_suffix val_opt_def
      split: option.splits list.splits)

lemma publishes_of_post_to_threads:
  assumes "files_get_temporary_link w h (path_lower file) = Inr lnk"
    and "fst (list_dropbox_files w u (h @ [FilesGetTemporaryLink (path_lower file)])) = Inr files"
  shows "filter (is_publish u) (snd (post_to_threads w u file caption h)) =
           [RequestsPost (post_url u) (post_data u (media_type_of file) lnk caption)]"
proof (cases "requests_post w (post_history w u file (length files) h) (post_url u)
                (post_data u (media_type_of file) lnk caption)")
  case (Inl e)
  from post_to_threads_post_raises [OF assms Inl] show ?thesis
    by (simp add: drop_post_history filter_sent)
next
  case (Inr res)
  from post_to_threads_post_returns [OF assms Inr] show ?thesis
    by (simp add: drop_post_history filter_sent)
qed

text \<open>
  C7. Whenever \<^verbatim>\<open>post_to_threads\<close> gets as far as its request (the link fetch and the
  listing returned), it issues exactly one request to the publishing URL. With a non-empty
  temporary link the form holds the link as \<^verbatim>\<open>video_url\<close> with media type VIDEO when the
  lowercased file name ends in \<^verbatim>\<open>.mp4\<close> or \<^verbatim>\<open>.mov\<close>, and as \<^verbatim>\<open>image_url\<close> with media
  type IMAGE otherwise; with no link (absent or empty) the form holds the access token, the
  caption and media type TEXT_POST only, whatever the extension.
\<close>

theorem post_request_media_kind:
  assumes "files_get_temporary_link w h (path_lower file) = Inr lnk"
    and "fst (list_dropbox_files w u (h @ [FilesGetTemporaryLink (path_lower file)])) = Inr files"
  shows "filter (is_publish u) (snd (post_to_threads w u file caption h)) =
    [RequestsPost (post_url u)
       ([(''access_token'', val_opt (threads_access_token u)), (''text'', caption)] @
        (case lnk of
           Some (c # cs) \<Rightarrow>
             if suffix ''.mp4'' (lower (name file)) \<or> suffix ''.mov'' (lower (name file))
             then [(''video_url'', PStr (c # cs)), (''media_type'', PStr ''VIDEO'')]
             else [(''image_url'', PStr (c # cs)), (''media_type'', PStr ''IMAGE'')]
         | _ \<Rightarrow> [(''media_type'', PStr ''TEXT_POST'')]))]"
  using publishes_of_post_to_threads [OF assms] by (simp only: post_data_cases)

lemma clip_is_video: "suffix ''.mp4'' (lower (name clip))"
  unfolding clip_def by code_simp

lemma shot_is_image:
  "\<not> (suffix ''.mp4'' (lower (name shot)) \<or> suffix ''.mov'' (lower (name shot)))"
  unfolding shot_def by code_simp

lemma list_calm: "fst (list_dropbox_files calm acct1 h) = Inr [clip, shot]"
proof -
  have "files_list_folder calm h (dropbox_folder acct1) = Inr [clip, shot]"
    by (simp add: calm_def)
  then have "fst (list_dropbox_files calm acct1 h) =
      Inr (filter (\<lambda>f. endswith (lower (name f)) valid_exts) [clip, shot])"
    by (simp add: list_dropbox_files_eq)
  also have "\<dots> = Inr [clip, shot]"
    unfolding clip_def shot_def by code_simp
  finally show ?thesis .
qed

theorem post_request_media_kind_witness:
  "filter (is_publish acct1) (snd (post_to_threads calm acct1 clip (PStr ''Fresh week'') [])) =
     [RequestsPost ''https://graph.threads.net/v1.0/1001/threads''
        [(''access_token'', PStr ''tat''), (''text'', PStr ''Fresh week''),
         (''video_url'', PStr ''https://dl.example/clip''), (''media_type'', PStr ''VIDEO'')]] \<and>
   filter (is_publish acct1) (snd (post_to_threads calm acct1 shot (PStr ''Fresh week'') [])) =
     [RequestsPost ''https://graph.threads.net/v1.0/1001/threads''
        [(''access_token'', PStr ''tat''), (''text'', PStr ''Fresh week''),
         (''image_url'', PStr ''https://dl.example/clip''), (''media_type'', PStr ''IMAGE'')]] \<and>
   filter (is_publish acct1) (snd (post_to_threads no_link acct1 clip (PStr ''Fresh week'') [])) =
     [RequestsPost ''https://graph.threads.net/v1.0/1001/threads''
        [(''access_token'', PStr ''tat''), (''text'', PStr ''Fresh week''),
         (''media_type'', PStr ''TEXT_POST'')]]"
proof -
  have url: "post_url acct1 = ''https://graph.threads.net/v1.0/1001/threads''"
    by (simp add: post_url_def acct1_def THREADS_API_BASE_def str_opt_def)
  have tok: "val_opt (threads_access_token acct1) = PStr ''tat''"
    by (simp add: acct1_def val_opt_def)
  have l1: "files_get_temporary_link calm [] (path_lower clip) = Inr (Some ''https://dl.example/clip'')"
    and l2: "files_get_temporary_link calm [] (path_lower shot) = Inr (Some ''https://dl.example/clip'')"
    and l3: "files_get_temporary_link no_link [] (path_lower clip) = Inr None"
    by (simp_all add: calm_def no_link_def)
  have f3: "fst (list_dropbox_files no_link acct1 h) = Inr [clip, shot]" for h
    using list_calm [of h] by (simp add: list_dropbox_files_eq no_link_def)
  note a = post_request_media_kind [OF l1 list_calm, of "PStr ''Fresh week''"]
  note b = post_request_media_kind [OF l2 list_calm, of "PStr ''Fresh week''"]
  note c = post_request_media_kind [OF l3 f3, of "PStr ''Fresh week''"]
  from a b c show ?thesis
    using clip_is_video shot_is_image by (simp add: url tok)
qed

text \<open>
  C2, as the code has it. The result is \<^verbatim>\<open>True\<close> exactly when the response to the post
  request has status 200; with any other status the result is \<^verbatim>\<open>False\<close>, after one
  failure notification that carries the response body; in both cases exactly one request
  was sent. Nothing is caught inside \<^verbatim>\<open>post_to_threads\<close>: an exception raised by the
  temporary-link fetch, by the listing or by the post request itself leaves the call as that
  exception.
\<close>

theorem post_to_threads_outcome:
  "(\<forall>e. files_get_temporary_link w h (path_lower file) = Inl e \<longrightarrow>
      fst (post_to_threads w u file caption h) = Inl e) \<and>
   (\<forall>lnk e. files_get_temporary_link w h (path_lower file) = Inr lnk \<and>
      fst (list_dropbox_files w u (h @ [FilesGetTemporaryLink (path_lower file)])) = Inl e \<longrightarrow>
      fst (post_to_threads w u file caption h) = Inl e) \<and>
   (\<forall>lnk files e. files_get_temporary_link w h (path_lower file) = Inr lnk \<and>
      fst (list_dropbox_files w u (h @ [FilesGetTemporaryLink (path_lower file)])) = Inr files \<and>
      requests_post w (post_history w u file (length files) h) (post_url u)
        (post_data u (media_type_of file) lnk caption) = Inl e \<longrightarrow>
      fst (post_to_threads w u file caption h) = Inl e) \<and>
   (\<forall>lnk files res. files_get_temporary_link w h (path_lower file) = Inr lnk \<and>
      fst (list_dropbox_files w u (h @ [FilesGetTemporaryLink (path_lower file)])) = Inr files \<and>
      requests_post w (post_history w u file (length files) h) (post_url u)
        (post_data u (media_type_of file) lnk caption) = Inr res \<longrightarrow>
      fst (post_to_threads w u file caption h) = Inr (status_code res = 200) \<and>
      filter (is_publish u) (snd (post_to_threads w u file caption h)) =
        [RequestsPost (post_url u) (post_data u (media_type_of file) lnk caption)] \<and>
      notices u (snd (post_to_threads w u file caption h)) =
        [uploading_msg file (media_type_of file) (length files),
         if status_code res = 200 then posted_msg file
         else cross_mark @ '' Threads post failed: '' @ name file @ nl @ text_body res])"
proof (intro conjI allI impI; (elim conjE)?)
  fix e assume "files_get_temporary_link w h (path_lower file) = Inl e"
  then show "fst (post_to_threads w u file caption h) = Inl e"
    by (simp add: post_to_threads_link_raises)
next
  fix lnk e
  assume "files_get_temporary_link w h (path_lower file) = Inr lnk"
    and "fst (list_dropbox_files w u (h @ [FilesGetTemporaryLink (path_lower file)])) = Inl e"
  then show "fst (post_to_threads w u file caption h) = Inl e"
    by (simp add: post_to_threads_list_raises)
next
  fix lnk files e
  assume "files_get_temporary_link w h (path_lower file) = Inr lnk"
    and "fst (list_dropbox_files w u (h @ [FilesGetTemporaryLink (path_lower file)])) = Inr files"
    and "requests_post w (post_history w u file (length files) h) (post_url u)
           (post_data u (media_type_of file) lnk caption) = Inl e"
  then show "fst (post_to_threads w u file caption h) = Inl e"
    by (simp add: post_to_threads_post_raises)
next
  fix lnk files res
  assume a: "files_get_temporary_link w h (path_lower file) = Inr lnk"
    "fst (list_dropbox_files w u (h @ [FilesGetTemporaryLink (path_lower file)])) = Inr files"
    "requests_post w (post_history w u file (length files) h) (post_url u)
           (post_data u (media_type_of file) lnk caption) = Inr res"
  note eq = post_to_threads_post_returns [OF a]
  show "fst (post_to_threads w u file caption h) = Inr (status_code res = 200)"
    by (simp add: eq)
  show "filter (is_publish u) (snd (post_to_threads w u file caption h)) =
        [RequestsPost (post_url u) (post_data u (media_type_of file) lnk caption)]"
    by (simp add: eq drop_post_history filter_sent)
  show "notices u (snd (post_to_threads w u file caption h)) =
        [uploading_msg file (media_type_of file) (length files),
         if status_code res = 200 then posted_msg file
         else cross_mark @ '' Threads post failed: '' @ name file @ nl @ text_body res]"
    by (simp add: eq drop_post_history post_failed_msg_def)
qed

theorem post_to_threads_outcome_witness:
  "fst (post_to_threads link_down acct1 clip (PStr ''Fresh week'') []) =
     Inl (WorldError ''Connection reset'') \<and>
   fst (post_to_threads post_down acct1 clip (PStr ''Fresh week'') []) =
     Inl (WorldError ''Connection aborted'') \<and>
   fst (post_to_threads rejected acct1 clip (PStr ''Fresh week'') []) = Inr False \<and>
   filter (is_publish acct1) (snd (post_to_threads rejected acct1 clip (PStr ''Fresh week'') [])) =
     [RequestsPost (post_url acct1)
        (post_data acct1 (media_type_of clip) (Some ''https://dl.example/clip'') (PStr ''Fresh week''))] \<and>
   notices acct1 (snd (post_to_threads rejected acct1 clip (PStr ''Fresh week'') [])) =
     [uploading_msg clip (media_type_of clip) 2,
      cross_mark @ '' Threads post failed: clip.mp4'' @ nl @ ''Invalid OAuth access token'']"
proof -
  have url: "post_url acct1 \<noteq> DROPBOX_TOKEN_URL"
    by (simp add: post_url_def THREADS_API_BASE_def DROPBOX_TOKEN_URL_def)
  have l0: "files_get_temporary_link link_down [] (path_lower clip) = Inl (WorldError ''Connection reset'')"
    by (simp add: link_down_def)
  have l1: "files_get_temporary_link post_down [] (path_lower clip) = Inr (Some ''https://dl.example/clip'')"
    and l2: "files_get_temporary_link rejected [] (path_lower clip) = Inr (Some ''https://dl.example/clip'')"
    by (simp_all add: post_down_def rejected_def calm_def)
  have f1: "fst (list_dropbox_files post_down acct1 h) = Inr [clip, shot]"
    and f2: "fst (list_dropbox_files rejected acct1 h) = Inr [clip, shot]" for h
    using list_calm [of h] by (simp_all add: list_dropbox_files_eq post_down_def rejected_def)
  have p1: "requests_post post_down h' (post_url acct1) d = Inl (WorldError ''Connection aborted'')"
    and p2: "requests_post rejected h' (post_url acct1) d = Inr bad_request" for h' d
    using url by (simp_all add: post_down_def rejected_def)
  note t0 = post_to_threads_outcome [of link_down "[]" clip acct1 "PStr ''Fresh week''"]
  note t1 = post_to_threads_outcome [of post_down "[]" clip acct1 "PStr ''Fresh week''"]
  note t2 = post_to_threads_outcome [of rejected "[]" clip acct1 "PStr ''Fresh week''"]
  have a: "fst (post_to_threads link_down acct1 clip (PStr ''Fresh week'') []) =
     Inl (WorldError ''Connection reset'')"
    using t0 l0 by blast
  have b: "fst (post_to_threads post_down acct1 clip (PStr ''Fresh week'') []) =
     Inl (WorldError ''Connection aborted'')"
    using t1 l1 f1 p1 by blast
  have c: "fst (post_to_threads rejected acct1 clip (PStr ''Fresh week'') []) = Inr (status_code bad_request = 200) \<and>
      filter (is_publish acct1) (snd (post_to_threads rejected acct1 clip (PStr ''Fresh week'') [])) =
        [RequestsPost (post_url acct1) (post_data acct1 (media_type_of clip) (Some ''https://dl.example/clip'') (PStr ''Fresh week''))] \<and>
      notices acct1 (snd (post_to_threads rejected acct1 clip (PStr ''Fresh week'') [])) =
        [uploading_msg clip (media_type_of clip) (length [clip, shot]),
         if status_code bad_request = 200 then posted_msg clip
         else cross_mark @ '' Threads post failed: '' @ name clip @ nl @ text_body bad_request]"
    using t2 l2 f2 p2 by blast
  from a b c show ?thesis
    by (simp add: bad_request_def clip_def numeral_2_eq_2)
qed

text \<open>
  C2, as the specification states it, fails: when the temporary-link fetch or the post
  request raises, \<^verbatim>\<open>post_to_threads\<close> raises too.
\<close>

theorem post_to_threads_raises_counterexample:
  "post_to_threads link_down acct1 clip (PStr ''Fresh week'') [] =
     (Inl (WorldError ''Connection reset''), [FilesGetTemporaryLink ''/threads_1/clip.mp4''])
   \<and> fst (post_to_threads post_down acct1 clip (PStr ''Fresh week'') []) =
     Inl (WorldError ''Connection aborted'')"
proof -
  have url: "post_url acct1 \<noteq> DROPBOX_TOKEN_URL"
    by (simp add: post_url_def THREADS_API_BASE_def DROPBOX_TOKEN_URL_def)
  have l0: "files_get_temporary_link link_down [] (path_lower clip) = Inl (WorldError ''Connection reset'')"
    by (simp add: link_down_def)
  have l1: "files_get_temporary_link post_down [] (path_lower clip) = Inr (Some ''https://dl.example/clip'')"
    by (simp_all add: post_down_def calm_def)
  have f1: "fst (list_dropbox_files post_down acct1 h) = Inr [clip, shot]" for h
    using list_calm [of h] by (simp_all add: list_dropbox_files_eq post_down_def)
  have p1: "requests_post post_down h' (post_url acct1) d = Inl (WorldError ''Connection aborted'')" for h' d
    using url by (simp_all add: post_down_def)
  show ?thesis
    using post_to_threads_link_raises [OF l0, of acct1 "PStr ''Fresh week''"]
      post_to_threads_post_raises [OF l1 f1 p1, of "PStr ''Fresh week''"]
    by (simp add: clip_def)
qed

section \<open>The workflow\<close>

lemma filter_none: "list_all (\<lambda>ev. \<not> P ev) es \<Longrightarrow> filter P es = []"
  by (induction es) auto

lemma notices_none: "list_all (\<lambda>ev. notice_of u ev = None) es \<Longrightarrow> notices u es = []"
  by (induction es) auto

lemma not_complete_notices:
  "list_all (not_complete u) es \<Longrightarrow> filter (prefix complete_prefix) (notices u es) = []"
  by (induction es) (auto simp: not_complete_def split: option.splits)

lemma emits_send_message:
  "(\<And>c t. P (TelegramSend c t)) \<Longrightarrow> (\<And>l t. P (Log l t)) \<Longrightarrow> emits P (send_message w u msg lvl)"
  by (simp add: emits_def send_message_snd split: option.splits)

lemma emits_not_complete_send_message:
  "\<not> prefix complete_prefix msg \<Longrightarrow> emits (not_complete u) (send_message w u msg lvl)"
  by (simp add: emits_def send_message_snd not_complete_def split: option.splits)

lemma emits_random_choice: "emits P (random_choice w xs)"
  by (simp add: random_choice_def emits_raise emits_ask)

lemma emits_py_get: "emits P (py_get d k x)"
  by (cases d) (simp_all add: py_get_def emits_raise emits_ret)

lemma emits_raise_for_status: "emits P (raise_for_status r)"
  by (simp add: raise_for_status_def emits_raise emits_ret)

lemma emits_get_caption:
  "(\<And>x. P (Log WARNING (''Could not load caption from config: '' @ x))) \<Longrightarrow>
   emits P (get_caption_from_config w u)"
  unfolding get_caption_from_config_def
  by (intro emits_try_except emits_bind emits_ask emits_py_get emits_emit emits_ret)

lemma emits_refresh:
  "P (RequestsPost DROPBOX_TOKEN_URL (token_data u)) \<Longrightarrow> emits P (refresh_dropbox_token w u)"
  unfolding refresh_dropbox_token_def Let_def
  by (intro emits_bind emits_call emits_raise_for_status emits_ask emits_py_get)

lemma emits_authenticate:
  "P (RequestsPost DROPBOX_TOKEN_URL (token_data u)) \<Longrightarrow> (\<And>t. P (DropboxNew t)) \<Longrightarrow>
   emits P (authenticate_dropbox w u)"
  unfolding authenticate_dropbox_def
  by (intro emits_bind emits_refresh emits_call_unit)

lemma emits_list: "P (FilesListFolder (dropbox_folder u)) \<Longrightarrow> emits P (list_dropbox_files w u)"
  unfolding list_dropbox_files_def
  by (intro emits_bind emits_call emits_ret)

lemma not_prefix_messages:
  "\<not> prefix complete_prefix (started_msg now)"
  "\<not> prefix complete_prefix no_files_msg"
  "\<not> prefix complete_prefix (uploading_msg file mt n)"
  "\<not> prefix complete_prefix (posted_msg file)"
  "\<not> prefix complete_prefix (post_failed_msg file res)"
  "\<not> prefix complete_prefix (deleted_msg file)"
  "\<not> prefix complete_prefix (delete_failed_msg file e)"
  "\<not> prefix complete_prefix (crashed_msg e)"
  by (simp_all add: complete_prefix_def chequered_flag_def started_msg_def antenna_def
        no_files_msg_def empty_mailbox_def uploading_msg_def rocket_def posted_msg_def
        check_mark_def post_failed_msg_def cross_mark_def deleted_msg_def wastebasket_def
        delete_failed_msg_def warning_sign_def crashed_msg_def)

lemma strip_header_other [simp]: "c \<noteq> CHR ''['' \<Longrightarrow> strip_header u (c # x) = None"
  by (simp add: strip_header_def header_def)

lemma prefix_complete_msg: "prefix complete_prefix (complete_msg d)"
  by (simp add: complete_prefix_def complete_msg_def)

lemma not_complete_simps [simp]:
  "not_complete u (RequestsPost a d)"
  "not_complete u (DropboxNew t)"
  "not_complete u (FilesListFolder p)"
  "not_complete u (FilesGetTemporaryLink p)"
  "not_complete u (FilesDeleteV2 p)"
  "c \<noteq> CHR ''['' \<Longrightarrow> not_complete u (Log l (c # x))"
  by (simp_all add: not_complete_def)

lemma emits_not_complete_post_to_threads: "emits (not_complete u) (post_to_threads w u file caption)"
  unfolding post_to_threads_def Let_def
  by (intro emits_bind emits_call emits_list emits_not_complete_send_message emits_if emits_ret
        not_prefix_messages) simp_all

lemma emits_not_complete_body: "emits (not_complete u) (run_body w u)"
  unfolding run_body_def
  by (intro emits_bind emits_get_caption emits_authenticate emits_list emits_if
        emits_not_complete_send_message emits_random_choice emits_not_complete_post_to_threads
        emits_try_except emits_call_unit not_prefix_messages) simp_all

lemma emits_not_complete_guarded:
  "emits (not_complete u) (try_except (run_body w u) (\<lambda>e. send_message w u (crashed_msg e) ERROR))"
  by (intro emits_try_except emits_not_complete_body emits_not_complete_send_message
        not_prefix_messages)

lemma guarded_fst:
  "fst (try_except (run_body w u) (\<lambda>e. send_message w u (crashed_msg e) ERROR) h) = Inr ()"
  by (simp add: try_except_def send_message_eq split: prod.splits sum.splits)

lemma run_eq:
  "run w u h =
     (Inr (),
      sent w u (started_msg (timestamp w h)) INFO h
      @ snd (try_except (run_body w u) (\<lambda>e. send_message w u (crashed_msg e) ERROR)
               (start_history w u h))
      @ sent w u
          (complete_msg (elapsed w (start_history w u h
             @ snd (try_except (run_body w u) (\<lambda>e. send_message w u (crashed_msg e) ERROR)
                      (start_history w u h)))))
          INFO
          (start_history w u h
             @ snd (try_except (run_body w u) (\<lambda>e. send_message w u (crashed_msg e) ERROR)
                      (start_history w u h))))"
proof -
  obtain es where g: "try_except (run_body w u) (\<lambda>e. send_message w u (crashed_msg e) ERROR)
      (start_history w u h) = (Inr (), es)"
    using guarded_fst [of w u "start_history w u h"] by (metis prod.collapse)
  show ?thesis
    unfolding g snd_conv
    using g
    by (simp add: run_def bind_def ask_def try_finally_def send_message_eq start_history_def)
qed

text \<open>
  C8. Every run returns normally, and the last thing it does is one call of
  \<^verbatim>\<open>send_message\<close> with the completion text (the chequered flag, "Run complete in", the
  elapsed seconds): the events of the run end with the events of that call, and among all
  notifications of the run exactly one, this last one, is a completion notification.
\<close>

theorem run_always_completes:
  "fst (run w u h) = Inr () \<and>
   (\<exists>pre. snd (run w u h) =
            pre @ sent w u (complete_msg (elapsed w (h @ pre))) INFO (h @ pre) \<and>
          filter (prefix complete_prefix) (notices u (snd (run w u h))) =
            [chequered_flag @ '' Run complete in '' @ elapsed w (h @ pre) @ '' seconds''])"
proof -
  let ?g = "try_except (run_body w u) (\<lambda>e. send_message w u (crashed_msg e) ERROR)"
  let ?s0 = "sent w u (started_msg (timestamp w h)) INFO h"
  let ?pre = "?s0 @ snd (?g (start_history w u h))"
  have h: "start_history w u h @ snd (?g (start_history w u h)) = h @ ?pre"
    by (simp add: start_history_def)
  have 1: "snd (run w u h) = ?pre @ sent w u (complete_msg (elapsed w (h @ ?pre))) INFO (h @ ?pre)"
    by (simp add: run_eq h [symmetric])
  have "list_all (not_complete u) ?s0"
    using emitsD [OF emits_not_complete_send_message [OF not_prefix_messages(1)], of u w _ INFO h]
    by (simp add: sent_def)
  moreover have "list_all (not_complete u) (snd (?g (start_history w u h)))"
    by (rule emitsD [OF emits_not_complete_guarded])
  ultimately have "list_all (not_complete u) ?pre" by simp
  then have 2: "filter (prefix complete_prefix) (notices u ?pre) = []"
    by (rule not_complete_notices)
  have cm: "chequered_flag @ '' Run complete in '' @ d @ '' seconds'' = complete_msg d" for d
    by (simp add: complete_msg_def)
  have "filter (prefix complete_prefix) (notices u (snd (run w u h))) =
      filter (prefix complete_prefix) (notices u ?pre) @ [complete_msg (elapsed w (h @ ?pre))]"
    unfolding 1 by (simp only: notices_append filter_append notices_sent filter.simps
        prefix_complete_msg if_True)
  then have 3: "filter (prefix complete_prefix) (notices u (snd (run w u h))) =
      [chequered_flag @ '' Run complete in '' @ elapsed w (h @ ?pre) @ '' seconds'']"
    unfolding 2 cm by simp
  have "fst (run w u h) = Inr ()" by (simp add: run_eq)
  with 1 3 show ?thesis by blast
qed

lemma bind_ok:
  "m h = (Inr x, es) \<Longrightarrow> bind m f h = (fst (f x (h @ es)), es @ snd (f x (h @ es)))"
  by (simp add: bind_def split: prod.splits)

lemma bind_raise: "m h = (Inl e, es) \<Longrightarrow> bind m f h = (Inl e, es)"
  by (simp add: bind_def)

lemma get_caption_returns: "\<exists>c. fst (get_caption_from_config w u h) = Inr c"
  by (simp add: get_caption_from_config_def try_except_def bind_def ask_def emit_def ret_def
        raise_def py_get_def
      split: sum.splits pyval.splits option.splits prod.splits)

lemma token_url_not_post_url [simp]: "DROPBOX_TOKEN_URL \<noteq> post_url u"
  by (simp add: DROPBOX_TOKEN_URL_def post_url_def THREADS_API_BASE_def)

lemma filter_caption:
  "(\<And>l t. \<not> P (Log l t)) \<Longrightarrow> filter P (snd (get_caption_from_config w u h)) = []"
  by (rule filter_none, rule emitsD, rule emits_get_caption) simp

lemma filter_authenticate:
  "\<not> P (RequestsPost DROPBOX_TOKEN_URL (token_data u)) \<Longrightarrow> (\<And>t. \<not> P (DropboxNew t)) \<Longrightarrow>
   filter P (snd (authenticate_dropbox w u h)) = []"
  by (rule filter_none, rule emitsD, rule emits_authenticate) simp_all

lemma notices_caption [simp]: "notices u (snd (get_caption_from_config w u h)) = []"
  by (rule notices_none, rule emitsD, rule emits_get_caption) simp

lemma notices_authenticate [simp]: "notices u (snd (authenticate_dropbox w u h)) = []"
  by (rule notices_none, rule emitsD, rule emits_authenticate) simp_all

lemma filter_delete_post_to_threads [simp]:
  "filter is_delete (snd (post_to_threads w u file caption h)) = []"
proof -
  have "emits (\<lambda>ev. \<not> is_delete ev) (post_to_threads w u file caption)"
    unfolding post_to_threads_def Let_def
    by (intro emits_bind emits_call emits_list emits_send_message emits_if emits_ret) simp_all
  then show ?thesis
    by (intro filter_none emitsD)
qed

lemma guarded_ok:
  "run_body w u h = (Inr (), es) \<Longrightarrow> try_except (run_body w u) handler h = (Inr (), es)"
  by (simp add: try_except_def)

lemma guarded_crash:
  "run_body w u h = (Inl e, es) \<Longrightarrow>
   try_except (run_body w u) (\<lambda>e. send_message w u (crashed_msg e) ERROR) h =
     (Inr (), es @ sent w u (crashed_msg e) ERROR (h @ es))"
  by (simp add: try_except_def send_message_eq)



lemma body_empty:
  assumes "fst (authenticate_dropbox w u (h @ snd (get_caption_from_config w u h))) = Inr ()"
    and "fst (list_dropbox_files w u
            (h @ snd (get_caption_from_config w u h)
               @ snd (authenticate_dropbox w u (h @ snd (get_caption_from_config w u h))))) = Inr []"
  shows "run_body w u h =
     (Inr (), snd (get_caption_from_config w u h)
              @ snd (authenticate_dropbox w u (h @ snd (get_caption_from_config w u h)))
              @ [FilesListFolder (dropbox_folder u)]
              @ sent w u no_files_msg INFO
                  (h @ snd (get_caption_from_config w u h)
                     @ snd (authenticate_dropbox w u (h @ snd (get_caption_from_config w u h)))
                     @ [FilesListFolder (dropbox_folder u)]))"
proof -
  let ?e1 = "snd (get_caption_from_config w u h)"
  let ?e2 = "snd (authenticate_dropbox w u (h @ ?e1))"
  obtain c where c: "get_caption_from_config w u h = (Inr c, ?e1)"
    using get_caption_returns [of w u h] by (metis prod.collapse)
  have a: "authenticate_dropbox w u (h @ ?e1) = (Inr (), ?e2)"
    using assms(1) by (simp add: prod_eq_iff)
  have l: "list_dropbox_files w u (h @ ?e1 @ ?e2) = (Inr [], [FilesListFolder (dropbox_folder u)])"
    using assms(2) by (simp add: prod_eq_iff list_dropbox_files_snd)
  show ?thesis
    unfolding run_body_def
    by (simp add: bind_ok [where m = "get_caption_from_config w u" and h = h, OF c] bind_ok [where m = "authenticate_dropbox w u" and h = "h @ snd (get_caption_from_config w u h)", OF a] bind_ok [where m = "list_dropbox_files w u" and h = "h @ snd (get_caption_from_config w u h) @ snd (authenticate_dropbox w u (h @ snd (get_caption_from_config w u h)))", OF l] send_message_eq)
qed

lemma try_delete_eq:
  "try_except
     (bind (call_unit (FilesDeleteV2 p) (\<lambda>h. files_delete_v2 w h p))
        (\<lambda>_. send_message w u ok_msg INFO))
     (\<lambda>e. send_message w u (failed_msg e) WARNING) h =
   (Inr (),
    FilesDeleteV2 p #
    (case files_delete_v2 w h p of
       None \<Rightarrow> sent w u ok_msg INFO (h @ [FilesDeleteV2 p])
     | Some e \<Rightarrow> sent w u (failed_msg e) WARNING (h @ [FilesDeleteV2 p])))"
  by (simp add: try_except_def bind_def call_unit_def send_message_eq split: option.splits)

lemma body_selected:
  assumes "fst (authenticate_dropbox w u (h @ snd (get_caption_from_config w u h))) = Inr ()"
    and "fst (list_dropbox_files w u
            (h @ snd (get_caption_from_config w u h)
               @ snd (authenticate_dropbox w u (h @ snd (get_caption_from_config w u h))))) = Inr files"
    and "files \<noteq> []"
    and "fst (get_caption_from_config w u h) = Inr caption"
    and "hc = h @ snd (get_caption_from_config w u h)
               @ snd (authenticate_dropbox w u (h @ snd (get_caption_from_config w u h)))
               @ [FilesListFolder (dropbox_folder u)]"
    and "file = files ! (randbelow w hc (length files) mod length files)"
  shows "run_body w u h =
     (case fst (post_to_threads w u file caption hc) of
        Inl e \<Rightarrow> (Inl e, drop (length h) hc @ snd (post_to_threads w u file caption hc))
      | Inr success \<Rightarrow>
          (Inr (), drop (length h) hc @ snd (post_to_threads w u file caption hc)
             @ FilesDeleteV2 (path_lower file) #
               (case files_delete_v2 w (hc @ snd (post_to_threads w u file caption hc))
                       (path_lower file) of
                  None \<Rightarrow> sent w u (deleted_msg file) INFO
                            (hc @ snd (post_to_threads w u file caption hc)
                                @ [FilesDeleteV2 (path_lower file)])
                | Some e \<Rightarrow> sent w u (delete_failed_msg file e) WARNING
                            (hc @ snd (post_to_threads w u file caption hc)
                                @ [FilesDeleteV2 (path_lower file)]))))"
proof -
  let ?e1 = "snd (get_caption_from_config w u h)"
  let ?e2 = "snd (authenticate_dropbox w u (h @ ?e1))"
  have c: "get_caption_from_config w u h = (Inr caption, ?e1)"
    using assms(4) by (simp add: prod_eq_iff)
  have a: "authenticate_dropbox w u (h @ ?e1) = (Inr (), ?e2)"
    using assms(1) by (simp add: prod_eq_iff)
  have l: "list_dropbox_files w u (h @ ?e1 @ ?e2) = (Inr files, [FilesListFolder (dropbox_folder u)])"
    using assms(2) by (simp add: prod_eq_iff list_dropbox_files_snd)
  have hc: "h @ ?e1 @ ?e2 @ [FilesListFolder (dropbox_folder u)] = hc"
    using assms(5) by simp
  have r: "random_choice w files hc = (Inr file, [])"
    using assms(3,6) by (simp add: random_choice_def ask_def)
  have d: "drop (length h) hc = ?e1 @ ?e2 @ [FilesListFolder (dropbox_folder u)]"
    using assms(5) by simp
  show ?thesis
  proof (cases "fst (post_to_threads w u file caption hc)")
    case (Inl e)
    then have p: "post_to_threads w u file caption hc =
        (Inl e, snd (post_to_threads w u file caption hc))"
      by (simp add: prod_eq_iff)
    show ?thesis
      unfolding run_body_def
      using assms(3)
      by (simp add: bind_ok [where m = "get_caption_from_config w u" and h = h, OF c] bind_ok [where m = "authenticate_dropbox w u" and h = "h @ snd (get_caption_from_config w u h)", OF a] bind_ok [where m = "list_dropbox_files w u" and h = "h @ snd (get_caption_from_config w u h) @ snd (authenticate_dropbox w u (h @ snd (get_caption_from_config w u h)))", OF l] hc bind_ok [where m = "random_choice w files" and h = hc, OF r]
            bind_raise [where m = "post_to_threads w u file caption" and h = hc, OF p] Inl d)
  next
    case (Inr success)
    then have p: "post_to_threads w u file caption hc =
        (Inr success, snd (post_to_threads w u file caption hc))"
      by (simp add: prod_eq_iff)
    show ?thesis
      unfolding run_body_def
      using assms(3)
      by (simp add: bind_ok [where m = "get_caption_from_config w u" and h = h, OF c] bind_ok [where m = "authenticate_dropbox w u" and h = "h @ snd (get_caption_from_config w u h)", OF a] bind_ok [where m = "list_dropbox_files w u" and h = "h @ snd (get_caption_from_config w u h) @ snd (authenticate_dropbox w u (h @ snd (get_caption_from_config w u h)))", OF l] hc bind_ok [where m = "random_choice w files" and h = hc, OF r]
            bind_ok [where m = "post_to_threads w u file caption" and h = hc, OF p] Inr d try_delete_eq split: option.splits)
  qed
qed

lemma run_snd_ok:
  "run_body w u (start_history w u h) = (Inr (), es) \<Longrightarrow>
   snd (run w u h) =
     sent w u (started_msg (timestamp w h)) INFO h @ es
     @ sent w u (complete_msg (elapsed w (start_history w u h @ es))) INFO
         (start_history w u h @ es)"
  by (simp add: run_eq guarded_ok)

lemma run_snd_crash:
  "run_body w u (start_history w u h) = (Inl e, es) \<Longrightarrow>
   snd (run w u h) =
     sent w u (started_msg (timestamp w h)) INFO h @ es
     @ sent w u (crashed_msg e) ERROR (start_history w u h @ es)
     @ sent w u
         (complete_msg (elapsed w (start_history w u h @ es
            @ sent w u (crashed_msg e) ERROR (start_history w u h @ es))))
         INFO
         (start_history w u h @ es @ sent w u (crashed_msg e) ERROR (start_history w u h @ es))"
  by (simp add: run_eq guarded_crash)

text \<open>
  C3. When the authentication returned and the listing returned no eligible file, the run
  ends normally after three notifications, the start, "No files found in Dropbox folder."
  and the completion, and it issues no publish request and no delete call.
\<close>

theorem run_empty_folder:
  assumes "fst (authenticate_dropbox w u (auth_history w u h)) = Inr ()"
    and "fst (list_dropbox_files w u (list_history w u h)) = Inr []"
  shows "fst (run w u h) = Inr () \<and>
    (\<exists>d. notices u (snd (run w u h)) =
       [started_msg (timestamp w h),
        empty_mailbox @ '' No files found in Dropbox folder.'',
        complete_msg d]) \<and>
    filter (is_publish u) (snd (run w u h)) = [] \<and>
    filter is_delete (snd (run w u h)) = []"
proof -
  note b = body_empty [of w u "start_history w u h",
      OF assms [unfolded list_history_def auth_history_def append_assoc]]
  note s = run_snd_ok [OF b]
  have 1: "fst (run w u h) = Inr ()" by (simp add: run_eq)
  have 2: "\<exists>d. notices u (snd (run w u h)) =
       [started_msg (timestamp w h), empty_mailbox @ '' No files found in Dropbox folder.'',
        complete_msg d]"
    unfolding s by (simp add: no_files_msg_def, blast)
  have 3: "filter (is_publish u) (snd (run w u h)) = []"
    unfolding s by (simp add: filter_sent filter_caption filter_authenticate)
  have 4: "filter is_delete (snd (run w u h)) = []"
    unfolding s by (simp add: filter_sent filter_caption filter_authenticate)
  from 1 2 3 4 show ?thesis by blast
qed

theorem run_empty_folder_witness:
  "fst (run empty_folder acct1 []) = Inr () \<and>
   (\<exists>d. notices acct1 (snd (run empty_folder acct1 [])) =
      [started_msg (timestamp empty_folder []),
       empty_mailbox @ '' No files found in Dropbox folder.'',
       complete_msg d]) \<and>
   filter (is_publish acct1) (snd (run empty_folder acct1 [])) = [] \<and>
   filter is_delete (snd (run empty_folder acct1 [])) = []"
proof -
  have a: "fst (authenticate_dropbox empty_folder acct1 (auth_history empty_folder acct1 [])) = Inr ()"
    by (simp add: authenticate_dropbox_def refresh_dropbox_token_def bind_def call_def
          call_unit_def ask_def raise_for_status_def ret_def py_get_def empty_folder_def calm_def
          token_response_def)
  have l: "fst (list_dropbox_files empty_folder acct1 (list_history empty_folder acct1 [])) = Inr []"
    by (simp add: list_dropbox_files_eq empty_folder_def)
  from run_empty_folder [OF a l] show ?thesis .
qed




lemma authenticate_snd_refresh_raises:
  "fst (refresh_dropbox_token w u h) = Inl e \<Longrightarrow>
   snd (authenticate_dropbox w u h) = snd (refresh_dropbox_token w u h)"
  by (cases "refresh_dropbox_token w u h") (auto simp: authenticate_dropbox_def bind_def)




text \<open>
  C1, as the code has it. Once a file is selected, what the run does depends on how
  \<^verbatim>\<open>post_to_threads\<close> ends. When it returns, with \<^verbatim>\<open>True\<close> or with \<^verbatim>\<open>False\<close>, the run
  issues exactly one delete call, for the path of the selected file. When it raises \<open>e\<close>,
  the run issues no delete call: after the notifications of \<^verbatim>\<open>post_to_threads\<close> it sends
  one crash notification that ends with the text of \<open>e\<close>, and the completion. In both
  cases the selected file is one of the eligible files and the run returns normally.
\<close>

theorem run_deletes_selected_file:
  assumes "fst (authenticate_dropbox w u (auth_history w u h)) = Inr ()"
    and "fst (list_dropbox_files w u (list_history w u h)) = Inr files"
    and "files \<noteq> []"
    and "fst (get_caption_from_config w u (start_history w u h)) = Inr caption"
    and "file = files ! (randbelow w (choice_history w u h) (length files) mod length files)"
  shows "file \<in> set files \<and> fst (run w u h) = Inr () \<and>
    (\<forall>success. fst (post_to_threads w u file caption (choice_history w u h)) = Inr success \<longrightarrow>
       filter is_delete (snd (run w u h)) = [FilesDeleteV2 (path_lower file)]) \<and>
    (\<forall>e. fst (post_to_threads w u file caption (choice_history w u h)) = Inl e \<longrightarrow>
       filter is_delete (snd (run w u h)) = [] \<and>
       (\<exists>d. notices u (snd (run w u h)) =
          started_msg (timestamp w h)
          # notices u (snd (post_to_threads w u file caption (choice_history w u h)))
          @ [cross_mark @ '' Script crashed: '' @ str_exn e, complete_msg d]))"
proof -
  have hc: "choice_history w u h =
      start_history w u h @ snd (get_caption_from_config w u (start_history w u h))
      @ snd (authenticate_dropbox w u
               (start_history w u h @ snd (get_caption_from_config w u (start_history w u h))))
      @ [FilesListFolder (dropbox_folder u)]"
    by (simp add: choice_history_def list_history_def auth_history_def)
  note b = body_selected [where h = "start_history w u h" and hc = "choice_history w u h",
      OF assms(1,2) [unfolded list_history_def auth_history_def append_assoc] assms(3,4) hc assms(5)]
  have d: "drop (length (start_history w u h)) (choice_history w u h) =
      snd (get_caption_from_config w u (start_history w u h))
      @ snd (authenticate_dropbox w u
               (start_history w u h @ snd (get_caption_from_config w u (start_history w u h))))
      @ [FilesListFolder (dropbox_folder u)]"
    by (simp add: hc)
  have 1: "file \<in> set files"
    using assms(3,5) by simp
  have 2: "fst (run w u h) = Inr ()" by (simp add: run_eq)
  have 3: "filter is_delete (snd (run w u h)) = [FilesDeleteV2 (path_lower file)]"
    if p: "fst (post_to_threads w u file caption (choice_history w u h)) = Inr success" for success
  proof -
    note s = run_snd_ok [OF b [unfolded p sum.case]]
    show ?thesis
      unfolding s d
      by (simp add: filter_sent filter_caption filter_authenticate split: option.splits)
  qed
  have 4: "filter is_delete (snd (run w u h)) = [] \<and>
       (\<exists>d. notices u (snd (run w u h)) =
          started_msg (timestamp w h)
          # notices u (snd (post_to_threads w u file caption (choice_history w u h)))
          @ [cross_mark @ '' Script crashed: '' @ str_exn e, complete_msg d])"
    if p: "fst (post_to_threads w u file caption (choice_history w u h)) = Inl e" for e
  proof -
    note s = run_snd_crash [OF b [unfolded p sum.case]]
    have "filter is_delete (snd (run w u h)) = []"
      unfolding s d
      by (simp add: filter_sent filter_caption filter_authenticate)
    moreover have "\<exists>d. notices u (snd (run w u h)) =
          started_msg (timestamp w h)
          # notices u (snd (post_to_threads w u file caption (choice_history w u h)))
          @ [cross_mark @ '' Script crashed: '' @ str_exn e, complete_msg d]"
      unfolding s d by (simp add: crashed_msg_def, blast)
    ultimately show ?thesis by blast
  qed
  from 1 2 3 4 show ?thesis by blast
qed

theorem run_deletes_selected_file_witness:
  "fst (post_to_threads calm acct1 clip (PStr ''Fresh week'') (choice_history calm acct1 [])) = Inr True \<and>
   filter is_delete (snd (run calm acct1 [])) = [FilesDeleteV2 ''/threads_1/clip.mp4''] \<and>
   fst (post_to_threads rejected acct1 clip (PStr ''Fresh week'') (choice_history rejected acct1 [])) = Inr False \<and>
   filter is_delete (snd (run rejected acct1 [])) = [FilesDeleteV2 ''/threads_1/clip.mp4''] \<and>
   fst (post_to_threads link_down acct1 clip (PStr ''Fresh week'') (choice_history link_down acct1 [])) =
     Inl (WorldError ''Connection reset'') \<and>
   filter is_delete (snd (run link_down acct1 [])) = [] \<and>
   (\<exists>d. notices acct1 (snd (run link_down acct1 [])) =
      [started_msg (timestamp link_down []),
       cross_mark @ '' Script crashed: Connection reset'', complete_msg d])"
proof -
  have url: "post_url acct1 \<noteq> DROPBOX_TOKEN_URL"
    by (simp add: post_url_def THREADS_API_BASE_def DROPBOX_TOKEN_URL_def)
  have a1: "fst (authenticate_dropbox calm acct1 h) = Inr ()"
    and a2: "fst (authenticate_dropbox rejected acct1 h) = Inr ()"
    and a3: "fst (authenticate_dropbox link_down acct1 h) = Inr ()" for h
    by (simp_all add: authenticate_dropbox_def refresh_dropbox_token_def bind_def call_def
          call_unit_def ask_def raise_for_status_def ret_def py_get_def rejected_def link_down_def
          calm_def token_response_def)
  have l2: "fst (list_dropbox_files rejected acct1 h) = Inr [clip, shot]"
    and l3: "fst (list_dropbox_files link_down acct1 h) = Inr [clip, shot]" for h
    using list_calm [of h] by (simp_all add: list_dropbox_files_eq rejected_def link_down_def)
  have ne: "[clip, shot] \<noteq> []" by simp
  have c1: "fst (get_caption_from_config calm acct1 h) = Inr (PStr ''Fresh week'')"
    and c2: "fst (get_caption_from_config rejected acct1 h) = Inr (PStr ''Fresh week'')"
    and c3: "fst (get_caption_from_config link_down acct1 h) = Inr (PStr ''Fresh week'')" for h
    by (simp_all add: get_caption_from_config_def try_except_def bind_def ask_def emit_def ret_def
        raise_def py_get_def calm_def rejected_def link_down_def acct1_def table1_def
        account_key_def)
  have f1: "clip = [clip, shot] ! (randbelow calm (choice_history calm acct1 []) (length [clip, shot])
                mod length [clip, shot])"
    and f2: "clip = [clip, shot] ! (randbelow rejected (choice_history rejected acct1 []) (length [clip, shot])
                mod length [clip, shot])"
    and f3: "clip = [clip, shot] ! (randbelow link_down (choice_history link_down acct1 []) (length [clip, shot])
                mod length [clip, shot])"
    by (simp_all add: calm_def rejected_def link_down_def)
  have k1: "files_get_temporary_link calm h (path_lower clip) = Inr (Some ''https://dl.example/clip'')"
    and k2: "files_get_temporary_link rejected h (path_lower clip) = Inr (Some ''https://dl.example/clip'')"
    and k3: "files_get_temporary_link link_down h (path_lower clip) = Inl (WorldError ''Connection reset'')" for h
    by (simp_all add: rejected_def calm_def link_down_def)
  have q1: "requests_post calm h' a d = Inr token_response"
    and q2: "requests_post rejected h' (post_url acct1) d = Inr bad_request" for h' a d
    using url by (simp_all add: rejected_def calm_def)
  have p1: "fst (post_to_threads calm acct1 clip (PStr ''Fresh week'') (choice_history calm acct1 [])) = Inr True"
    using post_to_threads_post_returns [where h = "choice_history calm acct1 []"
        and caption = "PStr ''Fresh week''", OF k1 list_calm q1]
    by (simp add: token_response_def)
  have p2: "fst (post_to_threads rejected acct1 clip (PStr ''Fresh week'') (choice_history rejected acct1 [])) = Inr False"
    using post_to_threads_post_returns [where h = "choice_history rejected acct1 []"
        and caption = "PStr ''Fresh week''", OF k2 l2 q2]
    by (simp add: bad_request_def)
  note e3 = post_to_threads_link_raises [where h = "choice_history link_down acct1 []"
        and caption = "PStr ''Fresh week''" and u = acct1, OF k3]
  have p3: "fst (post_to_threads link_down acct1 clip (PStr ''Fresh week'') (choice_history link_down acct1 [])) =
      Inl (WorldError ''Connection reset'')"
    by (simp add: e3)
  have n3: "notices acct1 (snd (post_to_threads link_down acct1 clip (PStr ''Fresh week'')
      (choice_history link_down acct1 []))) = []"
    by (simp add: e3)
  note t1 = run_deletes_selected_file [OF a1 list_calm ne c1 f1]
  note t2 = run_deletes_selected_file [OF a2 l2 ne c2 f2]
  note t3 = run_deletes_selected_file [OF a3 l3 ne c3 f3]
  have r1: "filter is_delete (snd (run calm acct1 [])) = [FilesDeleteV2 (path_lower clip)]"
    using t1 p1 by blast
  have r2: "filter is_delete (snd (run rejected acct1 [])) = [FilesDeleteV2 (path_lower clip)]"
    using t2 p2 by blast
  have r3: "filter is_delete (snd (run link_down acct1 [])) = [] \<and>
       (\<exists>d. notices acct1 (snd (run link_down acct1 [])) =
          started_msg (timestamp link_down [])
          # notices acct1 (snd (post_to_threads link_down acct1 clip (PStr ''Fresh week'')
               (choice_history link_down acct1 [])))
          @ [cross_mark @ '' Script crashed: '' @ str_exn (WorldError ''Connection reset''),
             complete_msg d])"
    using t3 p3 by blast
  from p1 p2 p3 r1 r2 r3 show ?thesis
    by (simp add: clip_def n3 [unfolded clip_def])
qed

text \<open>
  C1, as the specification states it, fails: a file is selected, the temporary-link fetch
  inside \<^verbatim>\<open>post_to_threads\<close> raises, the outer handler reports the crash, and no delete
  call is issued.
\<close>

theorem run_no_delete_counterexample:
  "fst (list_dropbox_files link_down acct1 (list_history link_down acct1 [])) = Inr [clip, shot] \<and>
   filter is_delete (snd (run link_down acct1 [])) = [] \<and>
   notices acct1 (snd (run link_down acct1 [])) =
     [started_msg ''2024-01-01 09:00:00'', crashed_msg (WorldError ''Connection reset''),
      complete_msg ''1.5'']"
proof -
  have 1: "fst (list_dropbox_files link_down acct1 (list_history link_down acct1 [])) = Inr [clip, shot]"
    using list_calm [of "list_history link_down acct1 []"]
    by (simp add: list_dropbox_files_eq link_down_def)
  have 2: "filter is_delete (snd (run link_down acct1 [])) = []"
    by code_simp
  have 3: "notices acct1 (snd (run link_down acct1 [])) =
     [started_msg ''2024-01-01 09:00:00'', crashed_msg (WorldError ''Connection reset''),
      complete_msg ''1.5'']"
    by code_simp
  from 1 2 3 show ?thesis by blast
qed

end
